theory Spec2Isabelle
  imports Complex_Main "HOL-Library.Sublist"
begin

section \<open>Values of the Python program\<close>

text \<open>
  A Python \<open>str\<close> is modelled by its UTF-8 bytes, as a \<open>string\<close>.  Equality and
  \<open>startswith\<close> on the bytes agree with Python's on the code points.  A byte above
  ASCII is written \<open>CHR 0x..\<close>.

  A spreadsheet cell holds \<open>None\<close>, a \<open>str\<close>, an \<open>int\<close>, a \<open>float\<close>, a \<open>bool\<close> or a
  \<open>datetime\<close>.  A finite float is the pair of an integer mantissa and a binary exponent:
  \<open>CFloat m e\<close> is the number \<open>m * 2 ^ e\<close>; every IEEE double has this form.  A datetime is
  an abstract point in time, an integer.
\<close>

datatype cell_value =
    CNone
  | CStr string
  | CInt int
  | CFloat int int
  | CBool bool
  | CDate int

text \<open>Python's truth value of a cell value, as \<open>if v:\<close> and \<open>any(...)\<close> test it.\<close>

fun truthy :: "cell_value \<Rightarrow> bool" where
  "truthy CNone = False"
| "truthy (CStr s) = (s \<noteq> [])"
| "truthy (CInt i) = (i \<noteq> 0)"
| "truthy (CFloat m e) = (m \<noteq> 0)"
| "truthy (CBool b) = b"
| "truthy (CDate d) = True"

text \<open>\<open>isinstance(v, str)\<close> and \<open>isinstance(v, (int, float))\<close>; a \<open>bool\<close> is an \<open>int\<close>.\<close>

fun is_str :: "cell_value \<Rightarrow> bool" where
  "is_str (CStr s) = True"
| "is_str v = False"

fun is_int_or_float :: "cell_value \<Rightarrow> bool" where
  "is_int_or_float (CInt i) = True"
| "is_int_or_float (CFloat m e) = True"
| "is_int_or_float (CBool b) = True"
| "is_int_or_float v = False"

text \<open>The exact numeric value of a number, which \<open>Decimal(v)\<close> keeps without rounding.\<close>

definition float_val :: "int \<Rightarrow> int \<Rightarrow> rat" where
  "float_val m e = (if 0 \<le> e then of_int m * 2 ^ nat e else of_int m / 2 ^ nat (- e))"

fun num_val :: "cell_value \<Rightarrow> rat" where
  "num_val (CInt i) = of_int i"
| "num_val (CFloat m e) = float_val m e"
| "num_val (CBool b) = (if b then 1 else 0)"
| "num_val v = 0"

text \<open>
  What a Python expression can hold here beyond a cell value: a \<open>Decimal\<close>, modelled by its
  numeric value.
\<close>

datatype pyval = PyCell cell_value | PyDecimal rat

datatype error =
    AssertionError
  | ValueError string
  | AttributeError
  | IndexError
  | KeyError
  | TypeError
  | InvalidOperation

text \<open>
  \<open>str.lower()\<close>.  The model lowers the ASCII letters and leaves every other byte as it
  is.  Python also lowers letters beyond ASCII, to text that is again beyond ASCII, but
  for the Kelvin sign, which it lowers to \<open>k\<close>.  The lowered texts are only compared with
  the lowered header texts of the locales, which are ASCII and have no \<open>k\<close>, so the
  comparison has the same result as in Python.
\<close>

definition lower_char :: "char \<Rightarrow> char" where
  "lower_char c =
     (let n = (of_char c :: nat) in if 65 \<le> n \<and> n \<le> 90 then char_of (n + 32) else c)"

definition lower :: "string \<Rightarrow> string" where
  "lower s = map lower_char s"

text \<open>\<open>s.startswith(p)\<close>.\<close>

fun startswith :: "string \<Rightarrow> string \<Rightarrow> bool" where
  "startswith s [] = True"
| "startswith [] (p # ps) = False"
| "startswith (c # cs) (p # ps) = (c = p \<and> startswith cs ps)"

section \<open>The locale tables\<close>

text \<open>
  The three dictionaries of the module, as association lists in the order of the source
  (a Python dictionary iterates in insertion order).  The first Spanish prefix is written
  with the bytes the source file has: after \<open>Bonificaci\<close> come \<open>C3 83 C2 B3\<close>, the two
  code points U+00C3 and U+00B3.
\<close>

definition TYPE_MAPPING :: "(string \<times> (string \<times> string) list) list" where
  "TYPE_MAPPING =
    [(''es'',
        [(''Pago con tarjeta'', ''POS''),
         (''Bizum'', ''PAYMENT''),
         (''Transferencia realizada'', ''XFER''),
         (''Transferencia recibida'', ''XFER'')]),
     (''it'',
        [(''Bonifico ricevuto'', ''XFER''),
         (''Bonifico eseguito'', ''XFER''),
         (''Pagamento con carta'', ''POS''),
         (''Prelievo bancomat'', ''ATM''),
         (''Addebito diretto'', ''DIRECTDEBIT''),
         (''Accredito stipendio'', ''DIRECTDEP''),
         (''Commissioni'', ''FEE'')])]"

definition TYPE_MAPPING_PREFIXES :: "(string \<times> (string \<times> string) list) list" where
  "TYPE_MAPPING_PREFIXES =
    [(''es'',
        [(''Abono Bonificaci'' @ [CHR 0xC3, CHR 0x83, CHR 0xC2, CHR 0xB3] @ ''n pack'', ''FEE''),
         (''Abono '', ''DIRECTDEP''),
         (''Adeudo '', ''DIRECTDEBIT''),
         (''Retirada de efectivo'', ''ATM'')]),
     (''it'',
        [(''Trasferimento '', ''XFER''),
         (''Accredito '', ''DIRECTDEP''),
         (''Addebito '', ''DIRECTDEBIT''),
         (''Prelievo '', ''ATM''),
         (''Commissione '', ''FEE''),
         (''Bonifico '', ''XFER'')])]"

definition FIELD_MAPPINGS :: "(string \<times> (string \<times> string) list) list" where
  "FIELD_MAPPINGS =
    [(''es'',
        [(''VALUE_DATE'', ''F.Valor''),
         (''DATE'', ''Fecha''),
         (''CONCEPT'', ''Concepto''),
         (''MOVEMENT'', ''Movimiento''),
         (''AMOUNT'', ''Importe''),
         (''CURRENCY'', ''Divisa''),
         (''BALANCE'', ''Disponible''),
         (''DESCRIPTION'', ''Observaciones'')]),
     (''it'',
        [(''VALUE_DATE'', ''Data valuta''),
         (''DATE'', ''Data''),
         (''CONCEPT'', ''Concetto''),
         (''MOVEMENT'', ''Movimento''),
         (''AMOUNT'', ''Importo''),
         (''CURRENCY'', ''Valuta''),
         (''BALANCE'', ''Disponibile''),
         (''DESCRIPTION'', ''Osservazioni'')])]"

text \<open>
  \<open>create_fields_enum\<close>: the \<open>Fields\<close> enumeration of a locale is the list of its members,
  each a name and a header text, in the order of the table; an unknown locale falls back
  to Spanish.
\<close>

definition create_fields_enum :: "string \<Rightarrow> (string \<times> string) list" where
  "create_fields_enum locale =
     (case map_of FIELD_MAPPINGS locale of
        Some field_map \<Rightarrow> field_map
      | None \<Rightarrow> the (map_of FIELD_MAPPINGS ''es''))"

section \<open>Classification of a transaction\<close>

text \<open>
  \<open>d.get(key)\<close> on a dictionary with \<open>str\<close> keys: only a \<open>str\<close> can be found.
\<close>

fun dict_get :: "(string \<times> string) list \<Rightarrow> cell_value \<Rightarrow> string option" where
  "dict_get d (CStr k) = map_of d k"
| "dict_get d v = None"

text \<open>
  The \<open>for prefix, transaction_type in ...items()\<close> loop of \<open>get_transaction_type\<close>.
  A concept that is not a \<open>str\<close> has no \<open>startswith\<close>: the first iteration raises.
\<close>

fun prefix_loop :: "(string \<times> string) list \<Rightarrow> cell_value \<Rightarrow> error + (string \<times> cell_value)" where
  "prefix_loop [] concept = Inr (''OTHER'', CNone)"
| "prefix_loop ((p, transaction_type) # rest) concept =
     (case concept of
        CStr c \<Rightarrow>
          if startswith c p then Inr (transaction_type, concept) else prefix_loop rest concept
      | _ \<Rightarrow> Inl AttributeError)"

text \<open>The truth value of what \<open>dict.get\<close> returned: \<open>None\<close> and the empty text are false.\<close>

fun found_type :: "string option \<Rightarrow> bool" where
  "found_type None = False"
| "found_type (Some t) = (t \<noteq> [])"

definition get_transaction_type ::
  "string \<Rightarrow> cell_value \<Rightarrow> cell_value \<Rightarrow> error + (string \<times> cell_value)" where
  "get_transaction_type locale concept movement =
     (case map_of TYPE_MAPPING locale of
        None \<Rightarrow> Inl KeyError
      | Some exact \<Rightarrow>
          if found_type (dict_get exact concept) then Inr (the (dict_get exact concept), concept)
          else if found_type (dict_get exact movement) then Inr (the (dict_get exact movement), movement)
          else
            (case map_of TYPE_MAPPING_PREFIXES locale of
               None \<Rightarrow> Inl KeyError
             | Some prefix_table \<Rightarrow> prefix_loop prefix_table concept))"

text \<open>
  The classifier as the specification words it, for a concept text and any movement
  value: the concept's exact match, then the movement's, then the first prefix of the
  table that the concept text starts with, then \<open>OTHER\<close> with no source text.
\<close>

definition classify ::
  "(string \<times> string) list \<Rightarrow> (string \<times> string) list \<Rightarrow> string \<Rightarrow> cell_value \<Rightarrow> string \<times> cell_value" where
  "classify exact prefix_table concept_text movement =
     (case map_of exact concept_text of
        Some tag \<Rightarrow> (tag, CStr concept_text)
      | None \<Rightarrow>
          (case dict_get exact movement of
             Some tag \<Rightarrow> (tag, movement)
           | None \<Rightarrow>
               (case find (\<lambda>(p, tag). prefix p concept_text) prefix_table of
                  Some (p, tag) \<Rightarrow> (tag, CStr concept_text)
                | None \<Rightarrow> (''OTHER'', CNone))))"

section \<open>The worksheet\<close>

text \<open>
  The active worksheet that \<open>load_workbook\<close> returns is a grid of cells: a list of rows,
  each a list of cell values.  As in the spreadsheet library, rows and columns count from
  1, a position outside the stored grid reads as the empty cell, every row that is handed
  out runs to the last used column, and a cell knows its row and its column.
\<close>

type_synonym worksheet = "cell_value list list"

record cell =
  cvalue :: cell_value
  crow :: nat
  col_idx :: nat

definition max_row :: "worksheet \<Rightarrow> nat" where
  "max_row sheet = length sheet"

definition max_column :: "worksheet \<Rightarrow> nat" where
  "max_column sheet = foldr max (map length sheet) 1"

definition value_at :: "worksheet \<Rightarrow> nat \<Rightarrow> nat \<Rightarrow> cell_value" where
  "value_at sheet r c =
     (if 1 \<le> r \<and> r \<le> length sheet \<and> 1 \<le> c \<and> c \<le> length (sheet ! (r - 1))
      then sheet ! (r - 1) ! (c - 1) else CNone)"

definition cell_at :: "worksheet \<Rightarrow> nat \<Rightarrow> nat \<Rightarrow> cell" where
  "cell_at sheet r c = \<lparr>cvalue = value_at sheet r c, crow = r, col_idx = c\<rparr>"

text \<open>
  \<open>ws.iter_rows(min_row, min_col)\<close>: the rows from \<open>min_row\<close> to the last row, each from
  column \<open>min_col\<close> to the last column; a bound of 0 counts as not given, that is 1.
\<close>

definition iter_rows :: "worksheet \<Rightarrow> nat \<Rightarrow> nat \<Rightarrow> cell list list" where
  "iter_rows sheet min_row min_col =
     map (\<lambda>r. map (cell_at sheet r) [(if min_col = 0 then 1 else min_col)..<Suc (max_column sheet)])
       [(if min_row = 0 then 1 else min_row)..<Suc (max_row sheet)]"

text \<open>\<open>for row in ws\<close>: all rows; a worksheet with no cell has none.\<close>

definition ws_rows :: "worksheet \<Rightarrow> cell list list" where
  "ws_rows sheet = (if sheet = [] then [] else iter_rows sheet 0 0)"

text \<open>\<open>ws[row]\<close>: the cells of one row, from the first to the last column.\<close>

definition ws_getitem :: "worksheet \<Rightarrow> nat \<Rightarrow> cell list" where
  "ws_getitem sheet r = map (cell_at sheet r) [1..<Suc (max_column sheet)]"

section \<open>What the imported libraries compute\<close>

text \<open>
  The module calls into the Python runtime and the statement library.  The functions
  whose results are not determined by this module's code are parameters of the model:
  \<^item> \<open>strptime\<close>: \<open>datetime.strptime(text, "%d/%m/%Y")\<close>, \<open>None\<close> where it raises;
  \<^item> \<open>Decimal_of_str\<close>: \<open>Decimal(text)\<close>, \<open>None\<close> where it raises;
  \<^item> \<open>str_of\<close>: \<open>str(v)\<close> of a number or a datetime;
  \<^item> \<open>sha1_id\<close>: the digest that \<open>generate_transaction_id\<close> returns for a date, a memo
    and an amount;
  \<^item> \<open>Decimal_add\<close>: the sum of two decimals in the decimal context.
\<close>

record Currency =
  symbol :: cell_value

record library =
  strptime :: "string \<Rightarrow> int option"
  Decimal_of_str :: "string \<Rightarrow> rat option"
  str_of :: "cell_value \<Rightarrow> string"
  sha1_id :: "int \<Rightarrow> string \<Rightarrow> pyval \<Rightarrow> string"
  Decimal_add :: "rat \<Rightarrow> rat \<Rightarrow> rat"

text \<open>\<open>str(v)\<close>, as an f-string formats a value.\<close>

definition py_str :: "library \<Rightarrow> cell_value \<Rightarrow> string" where
  "py_str lib v =
     (case v of
        CNone \<Rightarrow> ''None''
      | CStr s \<Rightarrow> s
      | CBool b \<Rightarrow> (if b then ''True'' else ''False'')
      | _ \<Rightarrow> str_of lib v)"

fun py_truthy :: "pyval \<Rightarrow> bool" where
  "py_truthy (PyCell v) = truthy v"
| "py_truthy (PyDecimal r) = (r \<noteq> 0)"

text \<open>Sequencing of computations that may raise.\<close>

definition bind_result :: "error + 'a \<Rightarrow> ('a \<Rightarrow> error + 'b) \<Rightarrow> error + 'b" where
  "bind_result r f = (case r of Inl e \<Rightarrow> Inl e | Inr v \<Rightarrow> f v)"

section \<open>The statement\<close>

record BankAccount =
  bank_id :: string
  acct_id :: string

record StatementLine =
  line_id :: string
  date :: pyval
  memo :: string
  amount :: pyval
  trntype :: string
  currency :: "Currency option"
  bank_account_to :: "BankAccount option"

record Statement =
  account_id :: string
  stmt_currency :: "Currency option"
  lines :: "StatementLine list"
  start_balance :: pyval
  end_balance :: pyval
  start_date :: pyval
  end_date :: pyval

text \<open>The statement of a new parser: \<open>Statement()\<close> with the account set.\<close>

definition new_statement :: "string \<Rightarrow> Statement" where
  "new_statement account =
     \<lparr>account_id = account, stmt_currency = None, lines = [],
      start_balance = PyCell CNone, end_balance = PyCell CNone,
      start_date = PyCell CNone, end_date = PyCell CNone\<rparr>"

section \<open>The parser object\<close>

record BBVAParser =
  locale_id :: string
  fields_enum :: "(string \<times> string) list"
  ws :: worksheet
  start_row :: nat
  start_column :: nat
  fields_to_row :: "string \<rightharpoonup> nat"
  statement :: Statement
  bank_account :: "BankAccount option"

text \<open>
  \<open>BBVAParser.__init__\<close>, with the loaded worksheet in place of the file name.  The three
  assertions reject a locale that one of the tables lacks.
\<close>

definition BBVAParser_init :: "worksheet \<Rightarrow> string \<Rightarrow> string \<Rightarrow> error + BBVAParser" where
  "BBVAParser_init sheet locale account =
     (if locale \<notin> set (map fst FIELD_MAPPINGS) then Inl AssertionError
      else if locale \<notin> set (map fst TYPE_MAPPING) then Inl AssertionError
      else if locale \<notin> set (map fst TYPE_MAPPING_PREFIXES) then Inl AssertionError
      else Inr \<lparr>locale_id = locale, fields_enum = create_fields_enum locale, ws = sheet,
                start_row = 0, start_column = 0, fields_to_row = Map.empty,
                statement = new_statement account, bank_account = None\<rparr>)"

section \<open>Reading a value\<close>

text \<open>
  \<open>strip_spaces\<close>: the words of a text, joined by single spaces (white space is the ASCII
  white space here).
\<close>

definition is_space :: "char \<Rightarrow> bool" where
  "is_space c = (let n = (of_char c :: nat) in (9 \<le> n \<and> n \<le> 13) \<or> (28 \<le> n \<and> n \<le> 32))"

fun pieces :: "string \<Rightarrow> string list" where
  "pieces [] = [[]]"
| "pieces (c # cs) =
     (if is_space c then [] # pieces cs
      else (case pieces cs of w # wt \<Rightarrow> (c # w) # wt | [] \<Rightarrow> [[c]]))"

fun join_space :: "string list \<Rightarrow> string" where
  "join_space [] = []"
| "join_space [w] = w"
| "join_space (w # v # rest) = w @ '' '' @ join_space (v # rest)"

definition strip_spaces :: "string \<Rightarrow> string" where
  "strip_spaces s = join_space (filter (\<lambda>w. w \<noteq> []) (pieces s))"

text \<open>\<open>value.split(" - ", 1)[1]\<close>: the text after the first \<open>" - "\<close>, if there is one.\<close>

fun after_dash :: "string \<Rightarrow> string option" where
  "after_dash [] = None"
| "after_dash (c # cs) = (if startswith (c # cs) '' - '' then Some (drop 2 cs) else after_dash cs)"

text \<open>
  The library's \<open>StatementParser.parse_value\<close>: \<open>None\<close> stays \<open>None\<close>; a date field is read
  with \<open>strptime\<close>; an amount is read as \<open>Decimal\<close> after a comma became a point and the
  blanks were removed; any other field is returned as it is.
\<close>

definition clean_number :: "string \<Rightarrow> string" where
  "clean_number s = filter (\<lambda>c. c \<noteq> CHR '' '') (map (\<lambda>c. if c = CHR '','' then CHR ''.'' else c) s)"

definition super_parse_value :: "library \<Rightarrow> cell_value \<Rightarrow> string \<Rightarrow> error + pyval" where
  "super_parse_value lib v field =
     (if v = CNone then Inr (PyCell CNone)
      else if field = ''date'' \<or> field = ''date_user'' then
        (case v of
           CStr s \<Rightarrow>
             (case strptime lib s of
                Some d \<Rightarrow> Inr (PyCell (CDate d))
              | None \<Rightarrow> Inl (ValueError ''time data does not match format''))
         | _ \<Rightarrow> Inl TypeError)
      else if field = ''amount'' then
        (case v of
           CStr s \<Rightarrow>
             (case Decimal_of_str lib (clean_number s) of
                Some r \<Rightarrow> Inr (PyDecimal r)
              | None \<Rightarrow> Inl InvalidOperation)
         | CDate d \<Rightarrow> Inl TypeError
         | _ \<Rightarrow> Inl AttributeError)
      else Inr (PyCell v))"

text \<open>\<open>BBVAParser.parse_value\<close>.\<close>

definition parse_value :: "library \<Rightarrow> cell_value \<Rightarrow> string \<Rightarrow> error + pyval" where
  "parse_value lib v field =
     (if field = ''amount'' then
        (if is_int_or_float v then Inr (PyDecimal (num_val v))
         else super_parse_value lib v field)
      else if field = ''date'' then
        (if \<not> is_str v then Inr (PyCell v)
         else super_parse_value lib v field)
      else if field = ''memo'' then
        (case v of
           CStr s \<Rightarrow>
             (case after_dash s of
                Some t \<Rightarrow> Inr (PyCell (CStr (strip_spaces t)))
              | None \<Rightarrow> super_parse_value lib v field)
         | _ \<Rightarrow> super_parse_value lib v field)
      else super_parse_value lib v field)"

text \<open>
  \<open>get_field_record\<close>: the value of a field in a row of cells, \<open>None\<close> for a field that has
  no column; indexing beyond the row raises.
\<close>

definition get_field_record :: "BBVAParser \<Rightarrow> cell list \<Rightarrow> string \<Rightarrow> error + cell_value" where
  "get_field_record self cells field =
     (case fields_to_row self field of
        None \<Rightarrow> Inr CNone
      | Some i \<Rightarrow> if i < length cells then Inr (cvalue (cells ! i)) else Inl IndexError)"

section \<open>Building a statement line\<close>

text \<open>
  The library's \<open>generate_transaction_id\<close> asserts that the line has a date and formats it
  with \<open>strftime\<close>, which only a datetime has; \<open>assert_valid\<close> wants a known transaction
  type and an identifier.
\<close>

definition generate_transaction_id :: "library \<Rightarrow> pyval \<Rightarrow> string \<Rightarrow> pyval \<Rightarrow> error + string" where
  "generate_transaction_id lib d m a =
     (case d of
        PyCell CNone \<Rightarrow> Inl AssertionError
      | PyCell (CDate t) \<Rightarrow> Inr (sha1_id lib t m a)
      | _ \<Rightarrow> Inl AttributeError)"

definition TRANSACTION_TYPES :: "string list" where
  "TRANSACTION_TYPES =
     [''CREDIT'', ''DEBIT'', ''INT'', ''DIV'', ''FEE'', ''SRVCHG'', ''DEP'', ''ATM'', ''POS'',
      ''XFER'', ''CHECK'', ''PAYMENT'', ''CASH'', ''DIRECTDEP'', ''DIRECTDEBIT'', ''REPEATPMT'',
      ''OTHER'']"

definition assert_valid :: "StatementLine \<Rightarrow> error + StatementLine" where
  "assert_valid sl =
     (if trntype sl \<notin> set TRANSACTION_TYPES then Inl AssertionError
      else if line_id sl = [] then Inl AssertionError
      else Inr sl)"

text \<open>
  \<open>BBVAParser.parse_record\<close>, in the order in which the source evaluates.  For the field
  \<open>currency\<close>, \<open>parse_value\<close> returns the cell value as it is, and a true value becomes the
  symbol of a \<open>Currency\<close>.
\<close>

definition parse_record :: "library \<Rightarrow> BBVAParser \<Rightarrow> cell list \<Rightarrow> error + StatementLine" where
  "parse_record lib self cells =
     bind_result (get_field_record self cells ''DATE'') (\<lambda>date_cell.
     bind_result (parse_value lib date_cell ''date'') (\<lambda>d.
     bind_result (get_field_record self cells ''AMOUNT'') (\<lambda>amount_cell.
     bind_result (parse_value lib amount_cell ''amount'') (\<lambda>a.
     bind_result (get_field_record self cells ''CONCEPT'') (\<lambda>concept.
     bind_result (get_field_record self cells ''MOVEMENT'') (\<lambda>movement.
     bind_result (get_field_record self cells ''DESCRIPTION'') (\<lambda>description.
     bind_result (get_transaction_type (locale_id self) concept movement) (\<lambda>(ttype, type_source).
     bind_result (get_field_record self cells ''CURRENCY'') (\<lambda>currency_cell.
     bind_result (parse_value lib currency_cell ''currency'') (\<lambda>cur.
     let m = ''[('' @ py_str lib type_source @ '')-('' @ py_str lib movement @ '')] ''
               @ py_str lib description
     in
     bind_result (generate_transaction_id lib d m a) (\<lambda>tid.
     assert_valid
       \<lparr>line_id = tid, date = d, memo = m, amount = a, trntype = ttype,
        currency = (case cur of
                      PyCell v \<Rightarrow> if truthy v then Some \<lparr>symbol = v\<rparr> else None
                    | PyDecimal r \<Rightarrow> None),
        bank_account_to = bank_account self\<rparr>)))))))))))"

section \<open>The rows of the table\<close>

text \<open>
  \<open>split_records\<close>: the \<open>while True\<close> loop walks down from the first data row and stops at
  the first row that has no true value from the start column on.  A row below the last
  row of the sheet holds empty cells only, so the loop ends.
\<close>

definition has_content :: "cell list \<Rightarrow> bool" where
  "has_content line_contents = list_ex (\<lambda>c. truthy (cvalue c)) line_contents"

function split_loop :: "worksheet \<Rightarrow> nat \<Rightarrow> nat \<Rightarrow> cell list list" where
  "split_loop sheet sc r =
     (if \<not> has_content (drop sc (ws_getitem sheet r)) then []
      else drop sc (ws_getitem sheet r) # split_loop sheet sc (r + 1))"
  by pat_completeness auto
termination
  by (relation "measure (\<lambda>(sheet, sc, r). Suc (length sheet) - r)")
     (auto simp: has_content_def list_ex_iff ws_getitem_def cell_at_def value_at_def
        dest!: in_set_dropD split: if_splits)

declare split_loop.simps [simp del]

definition split_records :: "BBVAParser \<Rightarrow> cell list list" where
  "split_records self = split_loop (ws self) (start_column self) (start_row self)"

text \<open>
  The library's \<open>StatementParser.parse\<close>: every record becomes a line, checked and appended;
  the first failure ends the parse.
\<close>

fun parse_lines ::
  "library \<Rightarrow> BBVAParser \<Rightarrow> cell list list \<Rightarrow> StatementLine list \<Rightarrow> error + StatementLine list" where
  "parse_lines lib self [] acc = Inr acc"
| "parse_lines lib self (line # rest) acc =
     (if line = [] then parse_lines lib self rest acc
      else bind_result (parse_record lib self line) (\<lambda>sl.
           bind_result (assert_valid sl) (\<lambda>sl'.
           parse_lines lib self rest (acc @ [sl']))))"

section \<open>Parsing a document\<close>

text \<open>
  The header search of \<open>parse\<close>: rows from the top, cells from the left, up to the first
  cell that holds a \<open>str\<close> whose lowered text is one of the lowered header texts.
\<close>

definition fields_values :: "BBVAParser \<Rightarrow> string list" where
  "fields_values self = map (\<lambda>(name, header). lower header) (fields_enum self)"

fun is_header :: "string list \<Rightarrow> cell_value \<Rightarrow> bool" where
  "is_header fv (CStr s) = (lower s \<in> set fv)"
| "is_header fv v = False"

fun find_in_row :: "string list \<Rightarrow> cell list \<Rightarrow> cell option" where
  "find_in_row fv [] = None"
| "find_in_row fv (c # cs) = (if is_header fv (cvalue c) then Some c else find_in_row fv cs)"

fun find_header :: "string list \<Rightarrow> cell list list \<Rightarrow> cell option" where
  "find_header fv [] = None"
| "find_header fv (row # rows) =
     (case find_in_row fv row of Some c \<Rightarrow> Some c | None \<Rightarrow> find_header fv rows)"

text \<open>
  The field mapping of \<open>parse\<close>: for every field, the first cell of the header row, from
  the start column on, whose value equals the field's header text gives the field its
  offset.  \<open>field_mapping\<close> is the dictionary that the loops leave for the header cell
  \<open>c\<close>.
\<close>

fun first_equal :: "string \<Rightarrow> cell list \<Rightarrow> cell option" where
  "first_equal header [] = None"
| "first_equal header (c # cs) =
     (if cvalue c = CStr header then Some c else first_equal header cs)"

fun map_fields ::
  "(string \<times> string) list \<Rightarrow> cell list \<Rightarrow> nat \<Rightarrow> (string \<rightharpoonup> nat) \<Rightarrow> (string \<rightharpoonup> nat)" where
  "map_fields [] cells sc m = m"
| "map_fields ((name, header) # rest) cells sc m =
     (case first_equal header cells of
        Some c \<Rightarrow> map_fields rest cells sc (m(name \<mapsto> col_idx c - sc - 1))
      | None \<Rightarrow> map_fields rest cells sc m)"

definition field_mapping :: "BBVAParser \<Rightarrow> cell \<Rightarrow> (string \<rightharpoonup> nat)" where
  "field_mapping self c =
     map_fields (fields_enum self) (drop (col_idx c - 1) (ws_getitem (ws self) (crow c)))
       (col_idx c - 1) (fields_to_row self)"

definition header_error :: "BBVAParser \<Rightarrow> error" where
  "header_error self =
     ValueError (''No compatible header cell found for locale '' @ [CHR 0x27] @ locale_id self
       @ [CHR 0x27] @ ''. Expected '' @ [CHR 0x27] @ the (map_of (fields_enum self) ''VALUE_DATE'')
       @ [CHR 0x27] @ '' or other field headers.'')"

text \<open>
  The first part of \<open>parse\<close>, up to the assignment of \<open>_start_row\<close> and \<open>_start_column\<close>:
  the parser as it stands when the rows are read, or the error raised.
\<close>

definition locate :: "BBVAParser \<Rightarrow> error + BBVAParser" where
  "locate self =
     (case find_header (fields_values self) (ws_rows (ws self)) of
        None \<Rightarrow> Inl (header_error self)
      | Some c \<Rightarrow>
          (let first_row = crow c;
               first_column = col_idx c - 1;
               mapping = field_mapping self c
           in if mapping ''DATE'' = None then Inl (ValueError ''No date column found'')
              else if mapping ''AMOUNT'' = None then Inl (ValueError ''No amount column found'')
              else if mapping ''CONCEPT'' = None then Inl (ValueError ''No concept column'')
              else Inr (self\<lparr>fields_to_row := mapping, start_row := first_row + 1,
                               start_column := first_column\<rparr>)))"

text \<open>
  The balance loop of \<open>parse\<close>.  The inner loop runs its body once for every cell of the
  row; the body reads the balance field of the row, cut at the start column, and a true
  value is stored as the starting balance.  Neither loop has a \<open>break\<close>.
\<close>

fun balance_cells :: "library \<Rightarrow> BBVAParser \<Rightarrow> cell list \<Rightarrow> cell list \<Rightarrow> pyval \<Rightarrow> error + pyval" where
  "balance_cells lib self row [] sb = Inr sb"
| "balance_cells lib self row (c # cs) sb =
     bind_result (get_field_record self (drop (start_column self) row) ''BALANCE'') (\<lambda>balance.
       if truthy balance
       then bind_result (parse_value lib balance ''amount'') (\<lambda>v. balance_cells lib self row cs v)
       else balance_cells lib self row cs sb)"

fun balance_rows :: "library \<Rightarrow> BBVAParser \<Rightarrow> cell list list \<Rightarrow> pyval \<Rightarrow> error + pyval" where
  "balance_rows lib self [] sb = Inr sb"
| "balance_rows lib self (row # rows) sb =
     bind_result (balance_cells lib self row row sb) (\<lambda>sb'. balance_rows lib self rows sb')"

definition scan_balance :: "library \<Rightarrow> BBVAParser \<Rightarrow> error + pyval" where
  "scan_balance lib self =
     balance_rows lib self (iter_rows (ws self) (start_row self) (start_column self))
       (start_balance (statement self))"

text \<open>
  The currency loop of \<open>parse\<close>.  A \<open>Currency\<close> object is true.  The library's
  \<open>Currency\<close> defines no \<open>__eq__\<close>, so \<open>==\<close> holds between an object and itself only.  In
  the loop \<open>statement.currency\<close> is \<open>None\<close> or the object of the line before, and
  \<open>parse_record\<close> makes an object of its own for every line: the comparison of the two
  objects is false, whatever their symbols, and so is the comparison of an object with
  \<open>None\<close>.
\<close>

fun currency_equal :: "Currency option \<Rightarrow> Currency option \<Rightarrow> bool" where
  "currency_equal (Some a) (Some b) = False"
| "currency_equal None None = True"
| "currency_equal x y = False"

fun unify_currency :: "Currency option \<Rightarrow> StatementLine list \<Rightarrow> Currency option" where
  "unify_currency cur [] = cur"
| "unify_currency cur (sl # rest) =
     (if cur = None \<or> currency_equal cur (currency sl)
      then unify_currency (currency sl) rest
      else None)"

text \<open>
  The library's \<open>recalculate_balance\<close>: the starting balance, 0 if there is none, and the
  sum of the amounts of the lines that have one give the ending balance; the first and
  the last date of the lines give the dates of the statement.
\<close>

fun decimal_of :: "pyval \<Rightarrow> rat option" where
  "decimal_of (PyDecimal r) = Some r"
| "decimal_of v = None"

fun datetime_of :: "pyval \<Rightarrow> int option" where
  "datetime_of (PyCell (CDate t)) = Some t"
| "datetime_of v = None"

definition recalculate_balance :: "library \<Rightarrow> Statement \<Rightarrow> error + Statement" where
  "recalculate_balance lib stmt =
     (let amounts = map (\<lambda>sl. the (decimal_of (amount sl)))
                      (filter (\<lambda>sl. decimal_of (amount sl) \<noteq> None) (lines stmt));
          total_amount = foldl (Decimal_add lib) 0 amounts;
          start = (if py_truthy (start_balance stmt) then the (decimal_of (start_balance stmt)) else 0)
      in
        if lines stmt = [] then Inl (ValueError ''min() arg is an empty sequence'')
        else if \<exists>sl \<in> set (lines stmt). datetime_of (date sl) = None then Inl TypeError
        else
          let dates = map (\<lambda>sl. the (datetime_of (date sl))) (lines stmt) in
          Inr (stmt\<lparr>start_balance := PyDecimal start,
                     end_balance := PyDecimal (Decimal_add lib start total_amount),
                     start_date := PyCell (CDate (foldr min (tl dates) (hd dates))),
                     end_date := PyCell (CDate (foldr max (tl dates) (hd dates)))\<rparr>))"

text \<open>
  The parser after the balance loop: the statement has its starting balance, and
  \<open>_bank_account\<close> is set.
\<close>

definition with_balance :: "BBVAParser \<Rightarrow> pyval \<Rightarrow> BBVAParser" where
  "with_balance self sb =
     self\<lparr>statement := (statement self)\<lparr>start_balance := sb\<rparr>,
          bank_account := Some \<lparr>bank_id = ''MICSITM1XXX'', acct_id = account_id (statement self)\<rparr>\<rparr>"

text \<open>\<open>BBVAParser.parse\<close>.\<close>

definition parse :: "library \<Rightarrow> BBVAParser \<Rightarrow> error + Statement" where
  "parse lib self0 =
     bind_result (locate self0) (\<lambda>self1.
     bind_result (scan_balance lib self1) (\<lambda>sb.
     let self2 = with_balance self1 sb in
     bind_result (parse_lines lib self2 (split_records self2) (lines (statement self2))) (\<lambda>ls.
     let stmt = (statement self2)\<lparr>lines := ls\<rparr>;
         stmt' = stmt\<lparr>stmt_currency := unify_currency (stmt_currency stmt) (lines stmt)\<rparr>
     in recalculate_balance lib stmt')))"

text \<open>
  What the plugin does with a file: \<open>get_parser\<close> makes the parser for the configured
  language and account, and \<open>parse\<close> reads the statement.
\<close>

definition parse_document :: "library \<Rightarrow> worksheet \<Rightarrow> string \<Rightarrow> string \<Rightarrow> error + Statement" where
  "parse_document lib sheet language account =
     bind_result (BBVAParser_init sheet language account) (parse lib)"

section \<open>Notions of the specification\<close>

text \<open>
  A cell is a header cell when its text, lowered, equals the lowered header text of some
  field of the locale.
\<close>

definition header_text :: "BBVAParser \<Rightarrow> cell_value \<Rightarrow> bool" where
  "header_text self v =
     (case v of
        CStr s \<Rightarrow> list_ex (\<lambda>(name, header). lower s = lower header) (fields_enum self)
      | _ \<Rightarrow> False)"

text \<open>The cells of a row of the sheet from the start column of the table on.\<close>

definition data_row :: "BBVAParser \<Rightarrow> nat \<Rightarrow> cell list" where
  "data_row self r = drop (start_column self) (ws_getitem (ws self) r)"

text \<open>The value that row \<open>r\<close> of the sheet carries in the column of a field.\<close>

definition field_at :: "BBVAParser \<Rightarrow> string \<Rightarrow> nat \<Rightarrow> cell_value" where
  "field_at self field r =
     (case fields_to_row self field of
        None \<Rightarrow> CNone
      | Some i \<Rightarrow> value_at (ws self) r (start_column self + i + 1))"

text \<open>
  The text source of the memo: the concept or the movement that matched the exact table,
  the concept if a prefix of the prefix table matched it, and \<open>None\<close> otherwise.
\<close>

definition memo_source ::
  "(string \<times> string) list \<Rightarrow> (string \<times> string) list \<Rightarrow> cell_value \<Rightarrow> cell_value \<Rightarrow> cell_value" where
  "memo_source exact prefix_table concept movement =
     (if dict_get exact concept \<noteq> None then concept
      else if dict_get exact movement \<noteq> None then movement
      else (case concept of
              CStr c \<Rightarrow> if list_ex (\<lambda>(p, tag). prefix p c) prefix_table then concept else CNone
            | _ \<Rightarrow> CNone))"

text \<open>
  The true balance values that the rows from the first data row to the last row of the
  sheet carry, in row order.
\<close>

definition balances :: "BBVAParser \<Rightarrow> cell_value list" where
  "balances self =
     filter truthy (map (field_at self ''BALANCE'') [start_row self..<Suc (max_row (ws self))])"

text \<open>A cell that is empty, holds the empty text or holds the number 0.\<close>

fun empty_or_zero :: "cell_value \<Rightarrow> bool" where
  "empty_or_zero CNone = True"
| "empty_or_zero (CStr s) = (s = [])"
| "empty_or_zero (CInt i) = (i = 0)"
| "empty_or_zero (CFloat m e) = (m = 0)"
| "empty_or_zero v = False"

section \<open>Sample documents\<close>

text \<open>
  A library for the samples: decimals add exactly and the identifier of a line is its
  memo.  The samples hold their dates as date cells and
  their amounts as numbers, so that the two text readers, which here accept nothing, and
  the formatting of numbers are not called.
\<close>

definition sample_library :: library where
  "sample_library =
     \<lparr>strptime = (\<lambda>s. None), Decimal_of_str = (\<lambda>s. None), str_of = (\<lambda>v. ''?''),
      sha1_id = (\<lambda>t m a. m),
      Decimal_add = (\<lambda>x y. x + y)\<rparr>"

text \<open>The parser that \<open>__init__\<close> makes for a sheet, the Spanish locale and an account.\<close>

definition sample_parser :: "worksheet \<Rightarrow> BBVAParser" where
  "sample_parser sheet =
     \<lparr>locale_id = ''es'', fields_enum = create_fields_enum ''es'', ws = sheet,
      start_row = 0, start_column = 0, fields_to_row = Map.empty,
      statement = new_statement ''acct'', bank_account = None\<rparr>"

text \<open>
  The parser as \<open>parse\<close> has it while it reads the rows of a sheet whose first row is the
  Spanish header, from the first column on.
\<close>

definition es_columns :: "string \<rightharpoonup> nat" where
  "es_columns =
     [''DATE'' \<mapsto> 0, ''CONCEPT'' \<mapsto> 1, ''MOVEMENT'' \<mapsto> 2, ''AMOUNT'' \<mapsto> 3, ''CURRENCY'' \<mapsto> 4,
      ''BALANCE'' \<mapsto> 5, ''DESCRIPTION'' \<mapsto> 6]"

definition es_table_parser :: "worksheet \<Rightarrow> BBVAParser" where
  "es_table_parser sheet =
     (sample_parser sheet)\<lparr>start_row := 2, start_column := 0, fields_to_row := es_columns,
        bank_account := Some \<lparr>bank_id = ''MICSITM1XXX'', acct_id = ''acct''\<rparr>\<rparr>"

definition es_header :: "cell_value list" where
  "es_header =
     [CStr ''Fecha'', CStr ''Concepto'', CStr ''Movimiento'', CStr ''Importe'', CStr ''Divisa'',
      CStr ''Disponible'', CStr ''Observaciones'']"

text \<open>
  The scenario of the specification: one row, whose amount and balance cells hold the
  doubles nearest to -45.30 and 954.70.
\<close>

definition scenario_sheet :: worksheet where
  "scenario_sheet =
     [es_header,
      [CDate 20240301, CStr ''Pago con tarjeta'', CNone, CFloat (- 3187704111248179) (- 46),
       CStr ''EUR'', CFloat 4198815004150989 (- 42), CStr ''Supermercado'']]"

text \<open>Two rows, a blank row and a third row; every row carries a balance.\<close>

definition blank_row_sheet :: worksheet where
  "blank_row_sheet =
     [es_header,
      [CDate 20240301, CStr ''Pago con tarjeta'', CNone, CInt (- 50), CStr ''EUR'', CInt 950,
       CStr ''Supermercado''],
      [CDate 20240302, CStr ''Bizum'', CStr ''Recibido'', CInt 20, CStr ''EUR'', CInt 970,
       CStr ''Cena''],
      [CNone, CNone, CNone, CNone, CNone, CNone, CNone],
      [CDate 20240303, CStr ''Adeudo recibo'', CNone, CInt (- 70), CStr ''EUR'', CInt 900,
       CStr ''Luz'']]"

text \<open>A row whose only value is an amount of zero, between two ordinary rows.\<close>

definition zero_row_sheet :: worksheet where
  "zero_row_sheet =
     [es_header,
      [CDate 20240301, CStr ''Pago con tarjeta'', CNone, CInt (- 50), CStr ''EUR'', CInt 950,
       CStr ''Supermercado''],
      [CNone, CNone, CNone, CInt 0, CNone, CNone, CNone],
      [CDate 20240303, CStr ''Bizum'', CNone, CInt 20, CStr ''EUR'', CInt 970, CStr ''Cena'']]"

text \<open>A first row without a currency and a second row in EUR.\<close>

definition late_currency_sheet :: worksheet where
  "late_currency_sheet =
     [es_header,
      [CDate 20240301, CStr ''Pago con tarjeta'', CNone, CInt (- 50), CNone, CInt 950,
       CStr ''Supermercado''],
      [CDate 20240302, CStr ''Bizum'', CNone, CInt 20, CStr ''EUR'', CInt 970, CStr ''Cena'']]"

text \<open>Three rows in EUR.\<close>

definition eur_sheet :: worksheet where
  "eur_sheet =
     [es_header,
      [CDate 20240301, CStr ''Bizum'', CNone, CInt 1, CStr ''EUR'', CNone, CStr ''a''],
      [CDate 20240302, CStr ''Bizum'', CNone, CInt 2, CStr ''EUR'', CNone, CStr ''b''],
      [CDate 20240303, CStr ''Bizum'', CNone, CInt 3, CStr ''EUR'', CNone, CStr ''c'']]"

text \<open>A row that no table classifies.\<close>

definition unclassified_sheet :: worksheet where
  "unclassified_sheet =
     [es_header,
      [CDate 20240301, CStr ''Compra'', CStr ''Tienda'', CInt (- 30), CStr ''EUR'', CInt 100,
       CStr ''Zapatos'']]"

text \<open>Header cells in capitals, below a title line.\<close>

definition capitals_sheet :: worksheet where
  "capitals_sheet =
     [[CStr ''Movimientos de la cuenta''],
      [CNone, CStr ''FECHA'', CStr ''CONCEPTO'', CStr ''IMPORTE''],
      [CNone, CDate 20240301, CStr ''Bizum'', CInt 20]]"

text \<open>A table below a title line, with its header from the second column on.\<close>

definition offset_sheet :: worksheet where
  "offset_sheet =
     [[CStr ''Movimientos de la cuenta''],
      [CNone, CStr ''Fecha'', CStr ''Concepto'', CStr ''Importe''],
      [CNone, CDate 20240301, CStr ''Bizum'', CInt 20]]"

text \<open>A sheet without any header text.\<close>

definition no_header_sheet :: worksheet where
  "no_header_sheet = [[CStr ''Saldo'', CInt 3], [CNone, CStr ''Total'']]"

section \<open>Classification\<close>

lemma startswith_prefix: "startswith s p = prefix p s"
  by (induction s p rule: startswith.induct) auto

lemma prefix_loop_text:
  "prefix_loop tbl (CStr c) =
     Inr (case find (\<lambda>(p, tag). prefix p c) tbl of
            Some (p, tag) \<Rightarrow> (tag, CStr c)
          | None \<Rightarrow> (''OTHER'', CNone))"
  by (induction tbl) (auto simp: startswith_prefix)

lemma exact_tags_nonempty:
  "locale = ''es'' \<or> locale = ''it'' \<Longrightarrow> map_of TYPE_MAPPING locale = Some exact \<Longrightarrow>
   map_of exact k = Some tag \<Longrightarrow> tag \<noteq> []"
  by (auto simp: TYPE_MAPPING_def split: if_splits)

lemma found_type_dict_get:
  assumes "locale = ''es'' \<or> locale = ''it''" and "map_of TYPE_MAPPING locale = Some exact"
  shows "found_type (dict_get exact v) = (dict_get exact v \<noteq> None)"
proof (cases "dict_get exact v")
  case None
  then show ?thesis by simp
next
  case (Some tag)
  then obtain k where "v = CStr k" and "map_of exact k = Some tag"
    by (cases v) auto
  then have "tag \<noteq> []"
    using exact_tags_nonempty [OF assms] by blast
  with Some show ?thesis by simp
qed

lemma get_transaction_type_classify:
  assumes "locale = ''es'' \<or> locale = ''it''"
    and e: "map_of TYPE_MAPPING locale = Some exact"
    and p: "map_of TYPE_MAPPING_PREFIXES locale = Some prefix_table"
  shows "get_transaction_type locale (CStr concept_text) movement =
           Inr (classify exact prefix_table concept_text movement)"
proof -
  have f: "found_type (dict_get exact v) = (dict_get exact v \<noteq> None)" for v
    using assms(1) e by (rule found_type_dict_get)
  show ?thesis
  proof (cases "map_of exact concept_text")
    case (Some tag)
    then show ?thesis
      using f [of "CStr concept_text"]
      by (simp add: get_transaction_type_def classify_def e)
  next
    case None
    note n = this
    show ?thesis
    proof (cases "dict_get exact movement")
      case (Some tag)
      then show ?thesis
        using f [of "CStr concept_text"] f [of movement] n
        by (simp add: get_transaction_type_def classify_def e)
    next
      case None
      then show ?thesis
        using f [of "CStr concept_text"] f [of movement] n
        by (simp add: get_transaction_type_def classify_def e p prefix_loop_text)
    qed
  qed
qed

lemma locale_tables:
  assumes "locale = ''es'' \<or> locale = ''it''"
  obtains exact prefix_table where "map_of TYPE_MAPPING locale = Some exact"
    and "map_of TYPE_MAPPING_PREFIXES locale = Some prefix_table"
  using assms by (auto simp: TYPE_MAPPING_def TYPE_MAPPING_PREFIXES_def)

text \<open>
  C5.  For a supported locale and a concept text, \<open>get_transaction_type\<close> never raises and
  returns what the specification's order of resolution gives: the concept's exact match,
  else the movement's exact match, else the first prefix of the table, in its declared
  order, that the concept text starts with, else \<open>OTHER\<close> with no source text.
\<close>

theorem C5_classification_order:
  assumes "locale = ''es'' \<or> locale = ''it''"
  shows "\<exists>exact prefix_table.
           map_of TYPE_MAPPING locale = Some exact \<and>
           map_of TYPE_MAPPING_PREFIXES locale = Some prefix_table \<and>
           get_transaction_type locale (CStr concept_text) movement =
             Inr (classify exact prefix_table concept_text movement)"
proof -
  obtain exact prefix_table where e: "map_of TYPE_MAPPING locale = Some exact"
    and p: "map_of TYPE_MAPPING_PREFIXES locale = Some prefix_table"
    using assms by (rule locale_tables)
  with assms show ?thesis
    by (auto intro: get_transaction_type_classify)
qed

theorem C5_classification_order_witness:
  "get_transaction_type ''es'' (CStr ''Adeudo recibo luz'') (CStr ''Bizum'') =
     Inr (''PAYMENT'', CStr ''Bizum'')
   \<and> get_transaction_type ''es'' (CStr ''Adeudo recibo luz'') CNone =
     Inr (''DIRECTDEBIT'', CStr ''Adeudo recibo luz'')
   \<and> get_transaction_type ''it'' (CStr ''Spesa'') CNone = Inr (''OTHER'', CNone)"
  using C5_classification_order [of "''es''" "''Adeudo recibo luz''" "CStr ''Bizum''"]
    C5_classification_order [of "''es''" "''Adeudo recibo luz''" CNone]
    C5_classification_order [of "''it''" "''Spesa''" CNone]
  by (auto simp: classify_def TYPE_MAPPING_def TYPE_MAPPING_PREFIXES_def)

text \<open>
  A concept that is not a text, such as an empty cell, has no \<open>startswith\<close>: where
  nothing matches exactly, the prefix loop raises.
\<close>

lemma get_transaction_type_empty_concept:
  "get_transaction_type ''es'' CNone CNone = Inl AttributeError"
  by (simp add: get_transaction_type_def TYPE_MAPPING_def TYPE_MAPPING_PREFIXES_def)

text \<open>
  C2.  For the locale \<open>es\<close>, the concept \<open>Abono Bonificaci\<close>, the letter o with acute
  accent (UTF-8 \<open>C3 B3\<close>), \<open>n pack\<close> is classified \<open>DIRECTDEP\<close> by the generic prefix
  \<open>Abono \<close>: the specific prefix of the table is spelled with the four bytes
  \<open>C3 83 C2 B3\<close> in place of the letter, and only a concept spelled with these bytes is
  classified \<open>FEE\<close>.
\<close>

theorem C2_abono_bonificacion_directdep:
  "get_transaction_type ''es'' (CStr (''Abono Bonificaci'' @ [CHR 0xC3, CHR 0xB3] @ ''n pack'')) CNone
     = Inr (''DIRECTDEP'', CStr (''Abono Bonificaci'' @ [CHR 0xC3, CHR 0xB3] @ ''n pack''))
   \<and> get_transaction_type ''es''
       (CStr (''Abono Bonificaci'' @ [CHR 0xC3, CHR 0x83, CHR 0xC2, CHR 0xB3] @ ''n pack'')) CNone
     = Inr (''FEE'', CStr (''Abono Bonificaci'' @ [CHR 0xC3, CHR 0x83, CHR 0xC2, CHR 0xB3] @ ''n pack''))"
  by (simp add: get_transaction_type_def TYPE_MAPPING_def TYPE_MAPPING_PREFIXES_def)

section \<open>Locating the header\<close>

lemma is_header_iff: "is_header (fields_values self) v = header_text self v"
  by (cases v) (auto simp: fields_values_def header_text_def list_ex_iff)

lemma find_in_row_find: "find_in_row fv row = find (\<lambda>c. is_header fv (cvalue c)) row"
  by (induction row) auto

lemma find_append_cases:
  "find P (xs @ ys) = (case find P xs of Some x \<Rightarrow> Some x | None \<Rightarrow> find P ys)"
  by (induction xs) auto

lemma find_header_find:
  "find_header fv rows = find (\<lambda>c. is_header fv (cvalue c)) (concat rows)"
  by (induction rows) (auto simp: find_in_row_find find_append_cases split: option.splits)

lemma ws_rows_cell:
  "c \<in> set (concat (ws_rows sheet)) \<Longrightarrow>
   cvalue c = value_at sheet (crow c) (col_idx c) \<and> 1 \<le> crow c \<and> 1 \<le> col_idx c"
  by (auto simp: ws_rows_def iter_rows_def cell_at_def split: if_splits)

lemma find_Some_member: "find P xs = Some x \<Longrightarrow> x \<in> set xs \<and> P x"
  by (induction xs) (auto split: if_splits)

lemma find_header_cell:
  assumes "find_header fv (ws_rows sheet) = Some c"
  shows "is_header fv (value_at sheet (crow c) (col_idx c)) \<and> 1 \<le> crow c \<and> 1 \<le> col_idx c"
proof -
  from assms have "c \<in> set (concat (ws_rows sheet))" and "is_header fv (cvalue c)"
    by (auto simp: find_header_find dest: find_Some_member)
  then show ?thesis
    using ws_rows_cell [of c sheet] by simp
qed

lemma locate_positions:
  "find_header (fields_values self) (ws_rows (ws self)) = Some c \<Longrightarrow> locate self = Inr self' \<Longrightarrow>
   start_row self' = crow c + 1 \<and> start_column self' = col_idx c - 1
   \<and> fields_to_row self' = field_mapping self c \<and> ws self' = ws self
   \<and> fields_enum self' = fields_enum self \<and> locale_id self' = locale_id self
   \<and> statement self' = statement self"
  by (auto simp: locate_def Let_def split: if_splits)

lemma parse_no_header:
  "find_header (fields_values self) (ws_rows (ws self)) = None \<Longrightarrow>
   parse lib self = Inl (header_error self)"
  by (simp add: parse_def locate_def bind_result_def)

lemma init_sample_parser: "BBVAParser_init sheet ''es'' ''acct'' = Inr (sample_parser sheet)"
  by (simp add: BBVAParser_init_def sample_parser_def FIELD_MAPPINGS_def TYPE_MAPPING_def
      TYPE_MAPPING_PREFIXES_def)

lemma no_header_sheet_values:
  "value_at no_header_sheet r c \<in> {CNone, CStr ''Saldo'', CInt 3, CStr ''Total''}"
  by (auto simp: value_at_def no_header_sheet_def nth_Cons split: nat.splits)

lemma capitals_header:
  "find_header (fields_values (sample_parser capitals_sheet)) (ws_rows (ws (sample_parser capitals_sheet))) =
     Some \<lparr>cvalue = CStr ''FECHA'', crow = 2, col_idx = 2\<rparr>"
  by code_simp

lemma capitals_header_cells:
  "drop 1 (ws_getitem capitals_sheet 2) =
     [\<lparr>cvalue = CStr ''FECHA'', crow = 2, col_idx = 2\<rparr>,
      \<lparr>cvalue = CStr ''CONCEPTO'', crow = 2, col_idx = 3\<rparr>,
      \<lparr>cvalue = CStr ''IMPORTE'', crow = 2, col_idx = 4\<rparr>]"
  by code_simp

lemma capitals_mapping:
  "field_mapping (sample_parser capitals_sheet) \<lparr>cvalue = CStr ''FECHA'', crow = 2, col_idx = 2\<rparr> = Map.empty"
  using capitals_header_cells 
  by (simp add: field_mapping_def sample_parser_def create_fields_enum_def FIELD_MAPPINGS_def)

lemma capitals_locate:
  "locate (sample_parser capitals_sheet) = Inl (ValueError ''No date column found'')"
  by (simp add: locate_def capitals_header capitals_mapping)

text \<open>
  C9.  There is a document on which the header search succeeds and \<open>parse\<close> still fails
  for a missing required field: in the sample sheet with the header cells \<open>FECHA\<close>,
  \<open>CONCEPTO\<close> and \<open>IMPORTE\<close> the search, which compares lowered texts, stops at \<open>FECHA\<close>,
  the field mapping, which compares the texts as they are, maps no field, and \<open>parse\<close>
  raises the error of the missing date column.
\<close>

theorem C9_capital_headers_rejected:
  "\<exists>sheet self c.
      BBVAParser_init sheet ''es'' ''acct'' = Inr self
    \<and> find_header (fields_values self) (ws_rows (ws self)) = Some c
    \<and> cvalue c = CStr ''FECHA''
    \<and> field_mapping self c = Map.empty
    \<and> parse lib self = Inl (ValueError ''No date column found'')"
proof (intro exI conjI)
  show "BBVAParser_init capitals_sheet ''es'' ''acct'' = Inr (sample_parser capitals_sheet)"
    by (rule init_sample_parser)
  show "find_header (fields_values (sample_parser capitals_sheet)) (ws_rows (ws (sample_parser capitals_sheet))) =
     Some \<lparr>cvalue = CStr ''FECHA'', crow = 2, col_idx = 2\<rparr>"
    by (rule capitals_header)
  show "cvalue \<lparr>cvalue = CStr ''FECHA'', crow = 2, col_idx = 2\<rparr> = CStr ''FECHA''"
    by simp
  show "field_mapping (sample_parser capitals_sheet) \<lparr>cvalue = CStr ''FECHA'', crow = 2, col_idx = 2\<rparr> = Map.empty"
    by (rule capitals_mapping)
  show "parse lib (sample_parser capitals_sheet) = Inl (ValueError ''No date column found'')"
    by (simp add: parse_def capitals_locate bind_result_def)
qed

section \<open>The phases of parse\<close>

lemma bind_result_Inr:
  "bind_result r f = Inr y \<longleftrightarrow> (\<exists>v. r = Inr v \<and> f v = Inr y)"
  by (cases r) (auto simp: bind_result_def)

lemma assert_valid_same: "assert_valid sl = Inr sl' \<Longrightarrow> sl' = sl"
  by (auto simp: assert_valid_def split: if_splits)

lemma parse_record_valid: "parse_record lib self cells = Inr sl \<Longrightarrow> assert_valid sl = Inr sl"
  by (auto simp: parse_record_def bind_result_Inr Let_def dest: assert_valid_same)

lemma parse_lines_records:
  "parse_lines lib self recs acc = Inr ls \<Longrightarrow>
   \<exists>new. ls = acc @ new \<and>
     list_all2 (\<lambda>cells sl. parse_record lib self cells = Inr sl) (filter (\<lambda>l. l \<noteq> []) recs) new"
proof (induction recs arbitrary: acc)
  case Nil
  then show ?case by simp
next
  case (Cons line rest)
  show ?case
  proof (cases "line = []")
    case True
    with Cons show ?thesis by simp
  next
    case False
    with Cons.prems obtain sl sl' where r: "parse_record lib self line = Inr sl"
      and v: "assert_valid sl = Inr sl'"
      and rest: "parse_lines lib self rest (acc @ [sl']) = Inr ls"
      by (auto simp: bind_result_Inr)
    from v have same: "sl' = sl" by (rule assert_valid_same)
    from Cons.IH [OF rest] obtain new where "ls = (acc @ [sl']) @ new"
      and "list_all2 (\<lambda>cells sl. parse_record lib self cells = Inr sl)
             (filter (\<lambda>l. l \<noteq> []) rest) new"
      by blast
    with r same False show ?thesis
      by (intro exI [of _ "sl # new"]) simp
  qed
qed

lemma recalculate_balance_keeps:
  "recalculate_balance lib stmt = Inr st \<Longrightarrow>
   lines st = lines stmt \<and> stmt_currency st = stmt_currency stmt \<and> account_id st = account_id stmt
   \<and> start_balance st =
       PyDecimal (if py_truthy (start_balance stmt) then the (decimal_of (start_balance stmt)) else 0)"
  by (auto simp: recalculate_balance_def Let_def split: if_splits)

lemma parse_phases:
  assumes "parse lib self0 = Inr st"
  obtains self1 sb ls where "locate self0 = Inr self1"
    and "scan_balance lib self1 = Inr sb"
    and "parse_lines lib (with_balance self1 sb) (split_records self1) (lines (statement self1)) = Inr ls"
    and "lines st = ls"
    and "stmt_currency st = unify_currency (stmt_currency (statement self1)) ls"
    and "start_balance st = PyDecimal (if py_truthy sb then the (decimal_of sb) else 0)"
proof -
  from assms obtain self1 sb ls where l: "locate self0 = Inr self1"
    and s: "scan_balance lib self1 = Inr sb"
    and p: "parse_lines lib (with_balance self1 sb) (split_records (with_balance self1 sb))
              (lines (statement (with_balance self1 sb))) = Inr ls"
    and r: "recalculate_balance lib
              ((statement (with_balance self1 sb))\<lparr>lines := ls,
                 stmt_currency := unify_currency (stmt_currency (statement (with_balance self1 sb))) ls\<rparr>)
            = Inr st"
    by (auto simp: parse_def bind_result_Inr Let_def)
  have sr: "split_records (with_balance self1 sb) = split_records self1"
    by (simp add: split_records_def with_balance_def)
  show ?thesis
    using l s p recalculate_balance_keeps [OF r]
    by (intro that [of self1 sb ls]) (simp_all add: sr, simp_all add: with_balance_def)
qed


section \<open>Row extraction\<close>

lemma has_content_in_sheet:
  "has_content (drop sc (ws_getitem sheet r)) \<Longrightarrow> r \<le> length sheet"
  by (auto simp: has_content_def list_ex_iff ws_getitem_def cell_at_def value_at_def
      dest!: in_set_dropD split: if_splits)

lemma split_loop_upto:
  "s \<le> r \<Longrightarrow> \<not> has_content (drop sc (ws_getitem sheet r)) \<Longrightarrow>
   split_loop sheet sc s =
     takeWhile has_content (map (\<lambda>i. drop sc (ws_getitem sheet i)) [s..<r])"
proof (induction sheet sc s rule: split_loop.induct)
  case (1 sheet sc s)
  show ?case
  proof (cases "s = r")
    case True
    with "1.prems" show ?thesis
      by (subst split_loop.simps) simp
  next
    case False
    with "1.prems" have lt: "s < r" by simp
    then have up: "[s..<r] = s # [s + 1..<r]"
      by (simp add: upt_conv_Cons)
    show ?thesis
    proof (cases "has_content (drop sc (ws_getitem sheet s))")
      case True
      with "1.IH" "1.prems" lt show ?thesis
        by (subst split_loop.simps) (simp add: up)
    next
      case False
      then show ?thesis
        by (subst split_loop.simps) (simp add: up)
    qed
  qed
qed

lemma split_records_upto:
  assumes "start_row self \<le> r" and "\<not> has_content (data_row self r)"
  shows "split_records self = takeWhile has_content (map (data_row self) [start_row self..<r])"
proof -
  have "data_row self = (\<lambda>i. drop (start_column self) (ws_getitem (ws self) i))"
    by (simp add: fun_eq_iff data_row_def)
  then show ?thesis
    using split_loop_upto [of "start_row self" r "start_column self" "ws self"] assms
    by (simp add: split_records_def)
qed

lemma split_records_takeWhile:
  "split_records self =
     takeWhile has_content (map (data_row self) [start_row self..<Suc (max_row (ws self))])"
proof (cases "start_row self \<le> Suc (max_row (ws self))")
  case True
  have "\<not> has_content (data_row self (Suc (max_row (ws self))))"
    using has_content_in_sheet [of "start_column self" "ws self" "Suc (max_row (ws self))"]
    by (auto simp: data_row_def max_row_def)
  with True show ?thesis by (rule split_records_upto)
next
  case False
  then have "\<not> has_content (data_row self (start_row self))"
    using has_content_in_sheet [of "start_column self" "ws self" "start_row self"]
    by (auto simp: data_row_def max_row_def)
  with False show ?thesis
    using split_records_upto [of self "start_row self"] by simp
qed

lemma split_records_nonempty: "cells \<in> set (split_records self) \<Longrightarrow> cells \<noteq> []"
  by (auto simp: split_records_takeWhile has_content_def dest!: set_takeWhileD)

lemma empty_or_zero_not_truthy: "empty_or_zero v \<Longrightarrow> \<not> truthy v"
  by (cases v) auto

lemma parse_lines_of_records:
  assumes "locate self0 = Inr self" and "parse lib self0 = Inr st" and "lines (statement self0) = []"
  shows "\<exists>sb. list_all2 (\<lambda>cells sl. parse_record lib (with_balance self sb) cells = Inr sl)
           (split_records self) (lines st)"
proof -
  from assms(2) obtain self1 sb ls where l: "locate self0 = Inr self1"
    and p: "parse_lines lib (with_balance self1 sb) (split_records self1) (lines (statement self1)) = Inr ls"
    and ls: "lines st = ls"
    by (rule parse_phases)
  from l assms(1) have s: "self1 = self" by simp
  have "statement self = statement self0"
    using assms(1) by (auto simp: locate_def Let_def split: option.splits if_splits)
  with assms(3) have e: "lines (statement self) = []" by simp
  have f: "filter (\<lambda>l. l \<noteq> []) (split_records self) = split_records self"
    by (auto simp: filter_id_conv dest: split_records_nonempty)
  from parse_lines_records [OF p] show ?thesis
    using s e f ls by auto
qed

text \<open>
  C10.  Row extraction tests the truth of the cell values: a row at or below the first
  data row in which every cell from the start column on is empty, the empty text or the
  number 0 ends the extraction, so the records are rows above it only, and the statement
  that \<open>parse\<close> returns has one line for each of these records and none for that row or
  a row below it.
\<close>

theorem C10_zero_row_ends_table:
  assumes "\<forall>c \<in> set (data_row self r). empty_or_zero (cvalue c)"
    and "start_row self \<le> r"
    and "locate self0 = Inr self" and "parse lib self0 = Inr st" and "lines (statement self0) = []"
  shows "split_records self = takeWhile has_content (map (data_row self) [start_row self..<r])
       \<and> length (lines st) = length (split_records self)
       \<and> length (lines st) \<le> r - start_row self"
proof -
  from assms(1) have "\<not> has_content (data_row self r)"
    by (auto simp: has_content_def list_ex_iff dest: empty_or_zero_not_truthy)
  with assms(2) have 1: "split_records self = takeWhile has_content (map (data_row self) [start_row self..<r])"
    by (rule split_records_upto)
  from parse_lines_of_records [OF assms(3-5)] have 2: "length (lines st) = length (split_records self)"
    by (auto dest: list_all2_lengthD)
  have "length (split_records self) \<le> length (map (data_row self) [start_row self..<r])"
    unfolding 1 by (rule length_takeWhile_le)
  with 1 2 show ?thesis by simp
qed

lemma sample_located:
  assumes "find_header (fields_values (sample_parser sheet)) (ws_rows (ws (sample_parser sheet))) = Some c"
    and "case locate (sample_parser sheet) of Inr p \<Rightarrow> True | Inl e \<Rightarrow> False"
  obtains p where "locate (sample_parser sheet) = Inr p" and "start_row p = crow c + 1"
    and "start_column p = col_idx c - 1" and "ws p = sheet"
    and "fields_to_row p = field_mapping (sample_parser sheet) c"
proof -
  from assms(2) obtain p where l: "locate (sample_parser sheet) = Inr p"
    by (auto split: sum.splits)
  have "ws (sample_parser sheet) = sheet"
    by (simp add: sample_parser_def)
  with locate_positions [OF assms(1) l] l show ?thesis
    by (intro that [of p]) simp_all
qed

lemma zero_row_located:
  obtains p where "locate (sample_parser zero_row_sheet) = Inr p" and "start_row p = 2"
    and "start_column p = 0" and "ws p = zero_row_sheet"
proof -
  have "find_header (fields_values (sample_parser zero_row_sheet))
          (ws_rows (ws (sample_parser zero_row_sheet))) =
        Some \<lparr>cvalue = CStr ''Fecha'', crow = 1, col_idx = 1\<rparr>"
    by code_simp
  moreover have "case locate (sample_parser zero_row_sheet) of Inr p \<Rightarrow> True | Inl e \<Rightarrow> False"
    by code_simp
  ultimately show ?thesis
    by (rule sample_located) (auto intro: that)
qed

theorem C10_zero_row_ends_table_witness:
  "list_all (\<lambda>c. empty_or_zero (cvalue c)) (drop 0 (ws_getitem zero_row_sheet 3))
   \<and> map_sum id (\<lambda>st. length (lines st) \<le> 3 - 2) (parse sample_library (sample_parser zero_row_sheet))
       = Inr True"
proof -
  obtain p where l: "locate (sample_parser zero_row_sheet) = Inr p" and r: "start_row p = 2"
    and c: "start_column p = 0" and w: "ws p = zero_row_sheet"
    by (rule zero_row_located)
  have z: "list_all (\<lambda>c. empty_or_zero (cvalue c)) (drop 0 (ws_getitem zero_row_sheet 3))"
    by code_simp
  then have h: "\<forall>c \<in> set (data_row p 3). empty_or_zero (cvalue c)"
    by (simp add: data_row_def c w list_all_iff)
  have "case parse sample_library (sample_parser zero_row_sheet) of Inr st \<Rightarrow> True | Inl e \<Rightarrow> False"
    by code_simp
  then obtain st where s: "parse sample_library (sample_parser zero_row_sheet) = Inr st"
    by (auto split: sum.splits)
  have "length (lines st) \<le> 3 - start_row p"
    using C10_zero_row_ends_table [OF h _ l s] r by (simp add: sample_parser_def new_statement_def)
  with z s r show ?thesis by simp
qed

text \<open>
  C7 (as amended).  The records are, in order, exactly the consecutive rows from the
  first data row up to, and without, the first row that holds no true value from the start
  column on (each of its cells is empty, the empty text, zero or \<open>False\<close>); the statement
  has one line for each record, built from it, in the same order; two rows with content
  followed by a row without give exactly two lines.
\<close>

theorem C7_rows_up_to_blank:
  assumes "locate self0 = Inr self" and "parse lib self0 = Inr st" and "lines (statement self0) = []"
  shows "split_records self =
           takeWhile (\<lambda>cells. list_ex (\<lambda>c. truthy (cvalue c)) cells)
             (map (data_row self) [start_row self..<Suc (max_row (ws self))])
       \<and> (\<exists>sb. list_all2 (\<lambda>cells sl. parse_record lib (with_balance self sb) cells = Inr sl)
                 (split_records self) (lines st))
       \<and> (has_content (data_row self (start_row self)) \<and>
          has_content (data_row self (start_row self + 1)) \<and>
          \<not> has_content (data_row self (start_row self + 2)) \<longrightarrow>
            split_records self = [data_row self (start_row self), data_row self (start_row self + 1)]
            \<and> length (lines st) = 2)"
proof (intro conjI impI)
  have "has_content = (\<lambda>cells. list_ex (\<lambda>c. truthy (cvalue c)) cells)"
    by (simp add: fun_eq_iff has_content_def)
  then show "split_records self =
           takeWhile (\<lambda>cells. list_ex (\<lambda>c. truthy (cvalue c)) cells)
             (map (data_row self) [start_row self..<Suc (max_row (ws self))])"
    using split_records_takeWhile [of self] by simp
next
  show a: "\<exists>sb. list_all2 (\<lambda>cells sl. parse_record lib (with_balance self sb) cells = Inr sl)
                 (split_records self) (lines st)"
    using assms by (rule parse_lines_of_records)
  assume h: "has_content (data_row self (start_row self)) \<and>
          has_content (data_row self (start_row self + 1)) \<and>
          \<not> has_content (data_row self (start_row self + 2))"
  have u: "[start_row self..<start_row self + 2] = [start_row self, start_row self + 1]"
    by (simp add: upt_conv_Cons)
  have "split_records self =
          takeWhile has_content (map (data_row self) [start_row self..<start_row self + 2])"
    using h by (intro split_records_upto) simp_all
  with h show b: "split_records self = [data_row self (start_row self), data_row self (start_row self + 1)]"
    by (simp add: u)
  from a b show "length (lines st) = 2"
    by (auto dest: list_all2_lengthD)
qed

lemma blank_row_located:
  obtains p where "locate (sample_parser blank_row_sheet) = Inr p" and "start_row p = 2"
    and "start_column p = 0" and "ws p = blank_row_sheet"
    and "fields_to_row p =
           field_mapping (sample_parser blank_row_sheet) \<lparr>cvalue = CStr ''Fecha'', crow = 1, col_idx = 1\<rparr>"
proof -
  have "find_header (fields_values (sample_parser blank_row_sheet))
          (ws_rows (ws (sample_parser blank_row_sheet))) =
        Some \<lparr>cvalue = CStr ''Fecha'', crow = 1, col_idx = 1\<rparr>"
    by code_simp
  moreover have "case locate (sample_parser blank_row_sheet) of Inr p \<Rightarrow> True | Inl e \<Rightarrow> False"
    by code_simp
  ultimately show ?thesis
    by (rule sample_located) (auto intro: that)
qed

theorem C7_rows_up_to_blank_witness:
  "has_content (drop 0 (ws_getitem blank_row_sheet 2))
   \<and> has_content (drop 0 (ws_getitem blank_row_sheet 3))
   \<and> \<not> has_content (drop 0 (ws_getitem blank_row_sheet 4))
   \<and> has_content (drop 0 (ws_getitem blank_row_sheet 5))
   \<and> map_sum id (\<lambda>st. length (lines st)) (parse sample_library (sample_parser blank_row_sheet)) = Inr 2"
proof -
  obtain p where l: "locate (sample_parser blank_row_sheet) = Inr p" and r: "start_row p = 2"
    and c: "start_column p = 0" and w: "ws p = blank_row_sheet"
    by (rule blank_row_located)
  have rows: "has_content (drop 0 (ws_getitem blank_row_sheet 2))"
    "has_content (drop 0 (ws_getitem blank_row_sheet 3))"
    "\<not> has_content (drop 0 (ws_getitem blank_row_sheet 4))"
    "has_content (drop 0 (ws_getitem blank_row_sheet 5))"
    by code_simp+
  have "case parse sample_library (sample_parser blank_row_sheet) of Inr st \<Rightarrow> True | Inl e \<Rightarrow> False"
    by code_simp
  then obtain st where s: "parse sample_library (sample_parser blank_row_sheet) = Inr st"
    by (auto split: sum.splits)
  have e: "lines (statement (sample_parser blank_row_sheet)) = []"
    by (simp add: sample_parser_def new_statement_def)
  have "length (lines st) = 2"
    using C7_rows_up_to_blank [OF l s e] rows
    by (simp add: data_row_def r c w numeral_3_eq_3 numeral_2_eq_2 eval_nat_numeral)
  with rows s show ?thesis by simp
qed

text \<open>
  C7 as stated fails on the sample sheet of four rows none of which is fully empty: the
  third row holds only an amount of zero, and \<open>parse\<close> returns one line, not three.
\<close>

theorem C7_zero_row_counterexample:
  "\<not> list_all (\<lambda>v. v = CNone) (zero_row_sheet ! 1)
   \<and> \<not> list_all (\<lambda>v. v = CNone) (zero_row_sheet ! 2)
   \<and> \<not> list_all (\<lambda>v. v = CNone) (zero_row_sheet ! 3)
   \<and> length zero_row_sheet = 4
   \<and> map_sum id (\<lambda>st. length (lines st)) (parse sample_library (sample_parser zero_row_sheet)) = Inr 1"
  by code_simp

section \<open>The memo and the amount of a line\<close>

lemma prefix_loop_not_text:
  "\<not> is_str concept \<Longrightarrow> prefix_loop tbl concept = Inr r \<Longrightarrow> r = (''OTHER'', CNone)"
  by (cases tbl; cases concept) auto

lemma get_transaction_type_source:
  assumes "locale = ''es'' \<or> locale = ''it''"
    and e: "map_of TYPE_MAPPING locale = Some exact"
    and p: "map_of TYPE_MAPPING_PREFIXES locale = Some prefix_table"
    and g: "get_transaction_type locale concept movement = Inr (tag, source)"
  shows "source = memo_source exact prefix_table concept movement"
proof (cases "is_str concept")
  case True
  then obtain c where c: "concept = CStr c"
    by (cases concept) auto
  have "find (\<lambda>(p, tag). prefix p c) prefix_table = None \<longleftrightarrow>
        \<not> list_ex (\<lambda>(p, tag). prefix p c) prefix_table"
    by (auto simp: find_None_iff list_ex_iff)
  then show ?thesis
    using g get_transaction_type_classify [OF assms(1) e p, of c movement] c
    by (auto simp: classify_def memo_source_def split: option.splits dest: find_Some_member)
next
  case False
  then have d: "dict_get exact concept = None"
    by (cases concept) auto
  have m: "memo_source exact prefix_table concept movement =
           (if dict_get exact movement \<noteq> None then movement else CNone)"
    using False d by (cases concept) (auto simp: memo_source_def)
  have f: "found_type (dict_get exact movement) = (dict_get exact movement \<noteq> None)"
    using assms(1) e by (rule found_type_dict_get)
  show ?thesis
  proof (cases "dict_get exact movement")
    case None
    with g d e p have "prefix_loop prefix_table concept = Inr (tag, source)"
      by (simp add: get_transaction_type_def)
    from prefix_loop_not_text [OF False this] m None show ?thesis by simp
  next
    case (Some t)
    with g d e f m show ?thesis
      by (simp add: get_transaction_type_def)
  qed
qed

text \<open>
  C4 (as amended).  The memo of a constructed line is \<open>[(source)-(movement)] description\<close>,
  each part formatted as Python's \<open>str\<close> does, where the source is the concept or the
  movement that matched the exact table, is the concept when a prefix matched, and is
  \<open>None\<close>, formatted as the text \<open>None\<close>, in the default case \<open>OTHER\<close>.
\<close>

theorem C4_memo_format:
  assumes "parse_record lib self cells = Inr sl"
    and "locale_id self = ''es'' \<or> locale_id self = ''it''"
    and "map_of TYPE_MAPPING (locale_id self) = Some exact"
    and "map_of TYPE_MAPPING_PREFIXES (locale_id self) = Some prefix_table"
  shows "\<exists>concept movement description.
           get_field_record self cells ''CONCEPT'' = Inr concept
         \<and> get_field_record self cells ''MOVEMENT'' = Inr movement
         \<and> get_field_record self cells ''DESCRIPTION'' = Inr description
         \<and> memo sl = ''[('' @ py_str lib (memo_source exact prefix_table concept movement)
                      @ '')-('' @ py_str lib movement @ '')] '' @ py_str lib description
         \<and> py_str lib CNone = ''None''"
proof -
  from assms(1) obtain concept movement description tag source
    where c: "get_field_record self cells ''CONCEPT'' = Inr concept"
      and m: "get_field_record self cells ''MOVEMENT'' = Inr movement"
      and d: "get_field_record self cells ''DESCRIPTION'' = Inr description"
      and g: "get_transaction_type (locale_id self) concept movement = Inr (tag, source)"
      and memo: "memo sl = ''[('' @ py_str lib source @ '')-('' @ py_str lib movement @ '')] ''
                   @ py_str lib description"
    by (auto simp: parse_record_def bind_result_Inr Let_def dest!: assert_valid_same)
  from get_transaction_type_source [OF assms(2-4) g] c m d memo show ?thesis
    by (simp add: py_str_def)
qed

lemma es_exact_table:
  "map_of TYPE_MAPPING ''es'' =
     Some [(''Pago con tarjeta'', ''POS''), (''Bizum'', ''PAYMENT''),
           (''Transferencia realizada'', ''XFER''), (''Transferencia recibida'', ''XFER'')]"
  by (simp add: TYPE_MAPPING_def)

lemma es_prefix_table:
  "map_of TYPE_MAPPING_PREFIXES ''es'' =
     Some [(''Abono Bonificaci'' @ [CHR 0xC3, CHR 0x83, CHR 0xC2, CHR 0xB3] @ ''n pack'', ''FEE''),
           (''Abono '', ''DIRECTDEP''), (''Adeudo '', ''DIRECTDEBIT''),
           (''Retirada de efectivo'', ''ATM'')]"
  by (simp add: TYPE_MAPPING_PREFIXES_def)

theorem C4_memo_format_witness:
  "map_sum id memo
     (parse_record sample_library (es_table_parser blank_row_sheet) (ws_getitem blank_row_sheet 3)) =
     Inr ''[(Bizum)-(Recibido)] Cena''
   \<and> map_sum id memo
     (parse_record sample_library (es_table_parser unclassified_sheet) (ws_getitem unclassified_sheet 2)) =
     Inr ''[(None)-(Tienda)] Zapatos''"
proof -
  let ?p = "es_table_parser blank_row_sheet" and ?cells = "ws_getitem blank_row_sheet 3"
  let ?q = "es_table_parser unclassified_sheet" and ?row = "ws_getitem unclassified_sheet 2"
  have loc: "locale_id ?p = ''es'' \<or> locale_id ?p = ''it''" "locale_id ?q = ''es'' \<or> locale_id ?q = ''it''"
    and e: "map_of TYPE_MAPPING (locale_id ?p) = map_of TYPE_MAPPING ''es''"
      "map_of TYPE_MAPPING (locale_id ?q) = map_of TYPE_MAPPING ''es''"
    and p: "map_of TYPE_MAPPING_PREFIXES (locale_id ?p) = map_of TYPE_MAPPING_PREFIXES ''es''"
      "map_of TYPE_MAPPING_PREFIXES (locale_id ?q) = map_of TYPE_MAPPING_PREFIXES ''es''"
    by (simp_all add: es_table_parser_def sample_parser_def)
  have "case parse_record sample_library ?p ?cells of Inr sl \<Rightarrow> True | Inl e \<Rightarrow> False"
    by code_simp
  then obtain sl where s: "parse_record sample_library ?p ?cells = Inr sl"
    by (auto split: sum.splits)
  have f: "get_field_record ?p ?cells ''CONCEPT'' = Inr (CStr ''Bizum'')"
    "get_field_record ?p ?cells ''MOVEMENT'' = Inr (CStr ''Recibido'')"
    "get_field_record ?p ?cells ''DESCRIPTION'' = Inr (CStr ''Cena'')"
    by code_simp+
  have 1: "memo sl = ''[(Bizum)-(Recibido)] Cena''"
    using C4_memo_format [OF s loc(1) e(1) [unfolded es_exact_table] p(1) [unfolded es_prefix_table]]
    by (simp add: f memo_source_def py_str_def)
  have "case parse_record sample_library ?q ?row of Inr sl \<Rightarrow> True | Inl e \<Rightarrow> False"
    by code_simp
  then obtain sl' where s': "parse_record sample_library ?q ?row = Inr sl'"
    by (auto split: sum.splits)
  have f': "get_field_record ?q ?row ''CONCEPT'' = Inr (CStr ''Compra'')"
    "get_field_record ?q ?row ''MOVEMENT'' = Inr (CStr ''Tienda'')"
    "get_field_record ?q ?row ''DESCRIPTION'' = Inr (CStr ''Zapatos'')"
    by code_simp+
  have 2: "memo sl' = ''[(None)-(Tienda)] Zapatos''"
    using C4_memo_format [OF s' loc(2) e(2) [unfolded es_exact_table] p(2) [unfolded es_prefix_table]]
    by (simp add: f' memo_source_def py_str_def)
  from 1 2 s s' show ?thesis by simp
qed

text \<open>
  C4 as stated fails in the default case: the row with the concept \<open>Compra\<close>, which no
  table classifies, gets a memo that starts with \<open>[(None)\<close>, not with the concept text.
\<close>

theorem C4_default_memo_counterexample:
  "get_transaction_type ''es'' (CStr ''Compra'') (CStr ''Tienda'') = Inr (''OTHER'', CNone)
   \<and> map_sum id (map memo \<circ> lines) (parse sample_library (sample_parser unclassified_sheet)) =
       Inr [''[(None)-(Tienda)] Zapatos'']
   \<and> ''[(None)-(Tienda)] Zapatos'' \<noteq> ''[(Compra)-(Tienda)] Zapatos''"
  by code_simp

lemma float_val_not_45_30: "float_val m e \<noteq> - (453 / 10)"
proof
  assume eq: "float_val m e = - (453 / 10)"
  show False
  proof (cases "0 \<le> e")
    case True
    with eq have "(of_int (10 * (m * 2 ^ nat e)) :: rat) = of_int (- 453)"
      by (simp add: float_val_def)
    then have "10 * (m * 2 ^ nat e) = - 453"
      by (simp only: of_int_eq_iff)
    then show False by presburger
  next
    case False
    with eq have "(of_int m :: rat) / 2 ^ nat (- e) = - (453 / 10)"
      by (simp add: float_val_def)
    then have "(of_int (m * 10) :: rat) = of_int (- 453 * 2 ^ nat (- e))"
      by (simp add: field_simps)
    then have "m * 10 = - 453 * 2 ^ nat (- e)"
      by (simp only: of_int_eq_iff)
    then have "453 * 2 ^ nat (- e) = 5 * (- (2 * m))"
      by simp
    then have "(5::int) dvd 453 * 2 ^ nat (- e)"
      by (rule dvdI)
    moreover have "coprime (5::int) (2 ^ nat (- e))"
      by (simp add: coprime_power_right_iff)
    ultimately have "(5::int) dvd 453"
      by (simp add: coprime_dvd_mult_left_iff)
    then show False by presburger
  qed
qed

text \<open>
  C8 (as amended).  For a row whose amount cell holds a number, the amount of the
  constructed line is the exact value of that number as a decimal: the integer itself for
  an integer cell, and for a float cell the binary value \<open>m * 2 ^ e\<close> of the double, which
  is never the decimal -45.30.
\<close>

theorem C8_amount_exact_value:
  assumes "parse_record lib self cells = Inr sl"
    and "get_field_record self cells ''AMOUNT'' = Inr v"
    and "is_int_or_float v"
  shows "amount sl = PyDecimal (num_val v)
       \<and> num_val (CInt i) = of_int i
       \<and> num_val (CFloat m e) = float_val m e
       \<and> float_val m e \<noteq> - (453 / 10)"
proof -
  from assms(1,2) obtain a where "parse_value lib v ''amount'' = Inr a" and "amount sl = a"
    by (auto simp: parse_record_def bind_result_Inr Let_def dest!: assert_valid_same)
  with assms(3) have "amount sl = PyDecimal (num_val v)"
    by (simp add: parse_value_def)
  then show ?thesis
    by (simp add: float_val_not_45_30)
qed

theorem C8_amount_exact_value_witness:
  "get_field_record (es_table_parser scenario_sheet) (ws_getitem scenario_sheet 2) ''AMOUNT'' =
     Inr (CFloat (- 3187704111248179) (- 46))
   \<and> map_sum id amount
       (parse_record sample_library (es_table_parser scenario_sheet) (ws_getitem scenario_sheet 2)) =
     Inr (PyDecimal (- (3187704111248179 / 70368744177664)))"
proof -
  let ?p = "es_table_parser scenario_sheet" and ?cells = "ws_getitem scenario_sheet 2"
  have "case parse_record sample_library ?p ?cells of Inr sl \<Rightarrow> True | Inl e \<Rightarrow> False"
    by code_simp
  then obtain sl where s: "parse_record sample_library ?p ?cells = Inr sl"
    by (auto split: sum.splits)
  have f: "get_field_record ?p ?cells ''AMOUNT'' = Inr (CFloat (- 3187704111248179) (- 46))"
    by code_simp
  have "amount sl = PyDecimal (num_val (CFloat (- 3187704111248179) (- 46)))"
    using C8_amount_exact_value [OF s f] by simp
  moreover have "num_val (CFloat (- 3187704111248179) (- 46)) = - (3187704111248179 / 70368744177664)"
    by code_simp
  ultimately show ?thesis
    using s f by simp
qed

text \<open>
  C8 as stated fails in the scenario of the specification: the amount cell -45.30 of the
  file is read as the double nearest to it, and the amount of the line is the exact value
  of that double, -3187704111248179 / 2 ^ 46, that is
  -45.2999999999999971578290569595992565155029296875, not -45.30.
\<close>

theorem C8_scenario_amount_counterexample:
  "map_sum id (map amount \<circ> lines) (parse sample_library (sample_parser scenario_sheet)) =
     Inr [PyDecimal (- (3187704111248179 / 70368744177664))]
   \<and> (- (3187704111248179 / 70368744177664) :: rat)
       = - (452999999999999971578290569595992565155029296875 / 10 ^ 46)
   \<and> PyDecimal (- (3187704111248179 / 70368744177664)) \<noteq> PyDecimal (- (453 / 10))"
  by code_simp

section \<open>The currency of the statement\<close>

lemma locate_keeps:
  "locate self = Inr self' \<Longrightarrow>
   statement self' = statement self \<and> ws self' = ws self \<and> locale_id self' = locale_id self"
  by (auto simp: locate_def Let_def split: option.splits if_splits)

lemma currency_equal_object: "currency_equal (Some c) x = False"
  by (cases x) simp_all

lemma unify_currency_result:
  "unify_currency None ls =
     (case dropWhile (\<lambda>c. c = None) (map currency ls) of [c] \<Rightarrow> c | _ \<Rightarrow> None)"
proof (induction ls)
  case Nil
  show ?case by simp
next
  case (Cons sl rest)
  show ?case
  proof (cases "currency sl")
    case None
    with Cons.IH show ?thesis by simp
  next
    case (Some c)
    then show ?thesis
      by (cases rest) (simp_all add: currency_equal_object)
  qed
qed

text \<open>
  C3.  On the sample sheet with three rows in EUR, every line of the statement that
  \<open>parse\<close> returns carries the currency EUR, and the statement has no currency: the loop
  compares the \<open>Currency\<close> objects of two lines, which are never the same object, so the
  second line clears the currency that the first one set.
\<close>

theorem C3_equal_currencies_unset:
  "map_sum id (map currency \<circ> lines) (parse sample_library (sample_parser eur_sheet)) =
     Inr [Some \<lparr>symbol = CStr ''EUR''\<rparr>, Some \<lparr>symbol = CStr ''EUR''\<rparr>, Some \<lparr>symbol = CStr ''EUR''\<rparr>]
   \<and> map_sum id stmt_currency (parse sample_library (sample_parser eur_sheet)) = Inr None"
  by code_simp

section \<open>The starting balance\<close>

lemma balance_cells_result:
  "balance_cells lib self row cs sb = Inr sb' \<Longrightarrow> cs \<noteq> [] \<Longrightarrow>
   \<exists>b. get_field_record self (drop (start_column self) row) ''BALANCE'' = Inr b \<and>
       (if truthy b then parse_value lib b ''amount'' = Inr sb' else sb' = sb)"
proof (induction cs arbitrary: sb)
  case Nil
  then show ?case by simp
next
  case (Cons c cs)
  from Cons.prems(1) obtain b where b: "get_field_record self (drop (start_column self) row) ''BALANCE'' = Inr b"
    and rest: "(if truthy b
                then bind_result (parse_value lib b ''amount'') (\<lambda>v. balance_cells lib self row cs v)
                else balance_cells lib self row cs sb) = Inr sb'"
    by (auto simp: bind_result_Inr)
  show ?case
  proof (cases "truthy b")
    case True
    with rest obtain v where v: "parse_value lib b ''amount'' = Inr v"
      and r: "balance_cells lib self row cs v = Inr sb'"
      by (auto simp: bind_result_Inr)
    show ?thesis
    proof (cases "cs = []")
      case True
      with r v b \<open>truthy b\<close> show ?thesis by auto
    next
      case False
      from Cons.IH [OF r False] b \<open>truthy b\<close> show ?thesis by auto
    qed
  next
    case False
    with rest have r: "balance_cells lib self row cs sb = Inr sb'" by simp
    show ?thesis
    proof (cases "cs = []")
      case True
      with r b False show ?thesis by auto
    next
      case cs: False
      from Cons.IH [OF r cs] b False show ?thesis by auto
    qed
  qed
qed

lemma balance_rows_result:
  "balance_rows lib self rows sb = Inr sb' \<Longrightarrow> \<forall>row \<in> set rows. row \<noteq> [] \<Longrightarrow>
   \<exists>bs. list_all2 (\<lambda>row b. get_field_record self (drop (start_column self) row) ''BALANCE'' = Inr b) rows bs \<and>
        (if filter truthy bs = [] then sb' = sb
         else parse_value lib (last (filter truthy bs)) ''amount'' = Inr sb')"
proof (induction rows arbitrary: sb)
  case Nil
  then show ?case by simp
next
  case (Cons row rows)
  from Cons.prems(1) obtain sb1 where c: "balance_cells lib self row row sb = Inr sb1"
    and r: "balance_rows lib self rows sb1 = Inr sb'"
    by (auto simp: bind_result_Inr)
  from Cons.prems(2) have ne: "row \<noteq> []" and nes: "\<forall>row \<in> set rows. row \<noteq> []"
    by simp_all
  from balance_cells_result [OF c ne] obtain b
    where b: "get_field_record self (drop (start_column self) row) ''BALANCE'' = Inr b"
      and b1: "if truthy b then parse_value lib b ''amount'' = Inr sb1 else sb1 = sb"
    by blast
  from Cons.IH [OF r nes] obtain bs
    where bs: "list_all2 (\<lambda>row b. get_field_record self (drop (start_column self) row) ''BALANCE'' = Inr b) rows bs"
      and bs1: "if filter truthy bs = [] then sb' = sb1
                else parse_value lib (last (filter truthy bs)) ''amount'' = Inr sb'"
    by blast
  have "list_all2 (\<lambda>row b. get_field_record self (drop (start_column self) row) ''BALANCE'' = Inr b)
          (row # rows) (b # bs)"
    using b bs by simp
  moreover have "if filter truthy (b # bs) = [] then sb' = sb
         else parse_value lib (last (filter truthy (b # bs))) ''amount'' = Inr sb'"
    using b1 bs1 by (auto split: if_splits)
  ultimately show ?case by blast
qed

lemma max_column_positive: "1 \<le> max_column sheet"
proof -
  have "1 \<le> foldr max xs (1::nat)" for xs
    by (induction xs) auto
  then show ?thesis by (simp add: max_column_def)
qed

lemma iter_rows_first_columns:
  assumes "sc \<le> 1" and "1 \<le> r0"
  shows "iter_rows sheet r0 sc = map (ws_getitem sheet) [r0..<Suc (max_row sheet)]"
proof -
  have "(if sc = 0 then 1 else sc) = 1"
    using assms(1) by auto
  moreover have "(if r0 = 0 then 1 else r0) = r0"
    using assms(2) by auto
  ultimately show ?thesis
    by (simp add: iter_rows_def ws_getitem_def)
qed

lemma ws_getitem_nonempty: "ws_getitem sheet r \<noteq> []"
  using max_column_positive [of sheet] by (simp add: ws_getitem_def)

lemma get_field_record_field_at:
  assumes "get_field_record self (drop (start_column self) (ws_getitem (ws self) r)) field = Inr b"
  shows "b = field_at self field r"
proof (cases "fields_to_row self field")
  case None
  with assms show ?thesis
    by (simp add: get_field_record_def field_at_def)
next
  case (Some i)
  with assms have i: "i < length (ws_getitem (ws self) r) - start_column self"
    and b: "b = cvalue (drop (start_column self) (ws_getitem (ws self) r) ! i)"
    by (auto simp: get_field_record_def split: if_splits)
  from i have "start_column self + i < length [1..<Suc (max_column (ws self))]"
    by (simp add: ws_getitem_def)
  then have "cvalue (ws_getitem (ws self) r ! (start_column self + i)) =
             value_at (ws self) r (start_column self + i + 1)"
    unfolding ws_getitem_def by (simp add: cell_at_def del: upt_Suc)
  with b i Some show ?thesis
    by (simp add: field_at_def)
qed

lemma parse_value_amount_decimal:
  "truthy v \<Longrightarrow> parse_value lib v ''amount'' = Inr a \<Longrightarrow> \<exists>r. a = PyDecimal r"
  by (cases v) (auto simp: parse_value_def super_parse_value_def split: option.splits)

lemma scan_balance_last:
  assumes s: "scan_balance lib self = Inr sb" and c: "start_column self \<le> 1" and r: "1 \<le> start_row self"
  shows "if balances self = [] then sb = start_balance (statement self)
         else parse_value lib (last (balances self)) ''amount'' = Inr sb"
proof -
  let ?rs = "[start_row self..<Suc (max_row (ws self))]"
  have rows: "iter_rows (ws self) (start_row self) (start_column self) = map (ws_getitem (ws self)) ?rs"
    using c r by (rule iter_rows_first_columns)
  have ne: "\<forall>row \<in> set (map (ws_getitem (ws self)) ?rs). row \<noteq> []"
    by (auto simp: ws_getitem_nonempty)
  from s have "balance_rows lib self (map (ws_getitem (ws self)) ?rs) (start_balance (statement self)) = Inr sb"
    by (simp add: scan_balance_def rows)
  from balance_rows_result [OF this ne] obtain bs
    where bs: "list_all2 (\<lambda>row b. get_field_record self (drop (start_column self) row) ''BALANCE'' = Inr b)
                 (map (ws_getitem (ws self)) ?rs) bs"
      and res: "if filter truthy bs = [] then sb = start_balance (statement self)
                else parse_value lib (last (filter truthy bs)) ''amount'' = Inr sb"
    by blast
  from bs have "list_all2 (\<lambda>r b. b = field_at self ''BALANCE'' r) ?rs bs"
    by (auto simp: list_all2_map1 elim!: list_all2_mono dest: get_field_record_field_at)
  then have e: "bs = map (field_at self ''BALANCE'') ?rs"
    by (induction rule: list_all2_induct) auto
  from res [unfolded e] show ?thesis
    unfolding balances_def .
qed

text \<open>
  C1 (as amended).  For a table that starts in the first or the second column of the
  sheet, the starting balance of the returned statement comes from the last row, in row
  order among all rows from the first data row to the end of the sheet, that carries a
  true value in the balance column, read as an exact decimal (a number keeps its exact
  value); every such row overwrites the balance taken from the rows above it, and without
  such a row the starting balance is 0.
\<close>

theorem C1_start_balance_last_row:
  assumes "locate self0 = Inr self" and "parse lib self0 = Inr st"
    and "start_column self \<le> 1"
    and "start_balance (statement self0) = PyCell CNone"
  shows "(if balances self = [] then start_balance st = PyDecimal 0
          else parse_value lib (last (balances self)) ''amount'' = Inr (start_balance st))
       \<and> (is_int_or_float b \<longrightarrow> parse_value lib b ''amount'' = Inr (PyDecimal (num_val b)))"
proof -
  from assms(2) obtain self1 sb where l: "locate self0 = Inr self1"
    and s1: "scan_balance lib self1 = Inr sb"
    and st: "start_balance st = PyDecimal (if py_truthy sb then the (decimal_of sb) else 0)"
    by (rule parse_phases)
  from l assms(1) have same: "self1 = self" by simp
  with s1 have s: "scan_balance lib self = Inr sb" by simp
  have r: "1 \<le> start_row self"
    using assms(1) by (auto simp: locate_def Let_def split: option.splits if_splits)
  have init: "start_balance (statement self) = PyCell CNone"
    using locate_keeps [OF assms(1)] assms(4) by simp
  have "if balances self = [] then start_balance st = PyDecimal 0
        else parse_value lib (last (balances self)) ''amount'' = Inr (start_balance st)"
  proof (cases "balances self = []")
    case True
    with scan_balance_last [OF s assms(3) r] init st show ?thesis by simp
  next
    case False
    with scan_balance_last [OF s assms(3) r]
    have p: "parse_value lib (last (balances self)) ''amount'' = Inr sb" by simp
    have "last (balances self) \<in> set (balances self)"
      using False by simp
    then have "truthy (last (balances self))"
      by (simp add: balances_def)
    from parse_value_amount_decimal [OF this p] obtain q where "sb = PyDecimal q" by blast
    with st have "start_balance st = sb" by simp
    with p False show ?thesis by simp
  qed
  then show ?thesis
    by (simp add: parse_value_def)
qed

theorem C1_start_balance_last_row_witness:
  "filter truthy (map (\<lambda>r. value_at blank_row_sheet r 6) [2..<Suc (max_row blank_row_sheet)]) =
     [CInt 950, CInt 970, CInt 900]
   \<and> map_sum id start_balance (parse sample_library (sample_parser blank_row_sheet)) =
       Inr (PyDecimal 900)"
proof -
  let ?c = "\<lparr>cvalue = CStr ''Fecha'', crow = 1, col_idx = 1\<rparr>"
  obtain p where l: "locate (sample_parser blank_row_sheet) = Inr p" and r: "start_row p = 2"
    and c: "start_column p = 0" and w: "ws p = blank_row_sheet"
    and f: "fields_to_row p = field_mapping (sample_parser blank_row_sheet) ?c"
    by (rule blank_row_located)
  have "field_mapping (sample_parser blank_row_sheet) ?c ''BALANCE'' = Some 5"
    by code_simp
  with f have f5: "fields_to_row p ''BALANCE'' = Some 5" by simp
  have v: "filter truthy (map (\<lambda>r. value_at blank_row_sheet r 6) [2..<Suc (max_row blank_row_sheet)]) =
     [CInt 950, CInt 970, CInt 900]"
    by code_simp
  have "field_at p ''BALANCE'' = (\<lambda>r. value_at blank_row_sheet r 6)"
    by (simp add: fun_eq_iff field_at_def f5 c w)
  then have b: "balances p = [CInt 950, CInt 970, CInt 900]"
    unfolding v [symmetric] by (simp add: balances_def r w del: upt_Suc)
  have "case parse sample_library (sample_parser blank_row_sheet) of Inr st \<Rightarrow> True | Inl e \<Rightarrow> False"
    by code_simp
  then obtain st where s: "parse sample_library (sample_parser blank_row_sheet) = Inr st"
    by (auto split: sum.splits)
  have init: "start_balance (statement (sample_parser blank_row_sheet)) = PyCell CNone"
    by (simp add: sample_parser_def new_statement_def)
  have "parse_value sample_library (CInt 900) ''amount'' = Inr (start_balance st)"
    using C1_start_balance_last_row [OF l s _ init] b c by simp
  then have "start_balance st = PyDecimal 900"
    by (simp add: parse_value_def)
  with v s show ?thesis by simp
qed

text \<open>
  C1 as stated fails on the sample sheet with two data rows: the first row carries the
  balance 950 and the second 970, and the starting balance of the statement is 970.
\<close>

theorem C1_later_row_counterexample:
  "value_at late_currency_sheet 2 6 = CInt 950
   \<and> value_at late_currency_sheet 3 6 = CInt 970
   \<and> map_sum id start_balance (parse sample_library (sample_parser late_currency_sheet)) =
       Inr (PyDecimal 970)"
  by code_simp

section \<open>The header of the table\<close>

lemma bind_result_Inl:
  "bind_result r f = Inl e \<longleftrightarrow> r = Inl e \<or> (\<exists>v. r = Inr v \<and> f v = Inl e)"
  by (cases r) (auto simp: bind_result_def)

lemma parse_value_not_header_error: "parse_value lib v field \<noteq> Inl (header_error s)"
  by (auto simp: parse_value_def super_parse_value_def header_error_def split: cell_value.splits option.splits)

lemma get_field_record_not_header_error: "get_field_record self cells field \<noteq> Inl (header_error s)"
  by (auto simp: get_field_record_def header_error_def split: option.splits)

lemma prefix_loop_error: "prefix_loop tbl concept = Inl e \<Longrightarrow> e = AttributeError"
  by (induction tbl) (auto split: cell_value.splits if_splits)

lemma prefix_loop_not_header_error: "prefix_loop tbl concept \<noteq> Inl (header_error s)"
  by (auto simp: header_error_def dest: prefix_loop_error)

lemma get_transaction_type_not_header_error:
  "get_transaction_type locale concept movement \<noteq> Inl (header_error s)"
  using prefix_loop_not_header_error [of _ concept s]
  by (auto simp: get_transaction_type_def header_error_def split: option.splits)

lemma generate_transaction_id_not_header_error:
  "generate_transaction_id lib d m a \<noteq> Inl (header_error s)"
  by (auto simp: generate_transaction_id_def header_error_def split: pyval.splits cell_value.splits)

lemma assert_valid_not_header_error: "assert_valid sl \<noteq> Inl (header_error s)"
  by (auto simp: assert_valid_def header_error_def)

lemmas not_header_error =
  parse_value_not_header_error get_field_record_not_header_error
  get_transaction_type_not_header_error generate_transaction_id_not_header_error
  assert_valid_not_header_error

lemma parse_record_not_header_error: "parse_record lib self cells \<noteq> Inl (header_error s)"
  unfolding parse_record_def
  by (simp add: bind_result_Inl not_header_error Let_def split_beta)

lemma parse_lines_not_header_error: "parse_lines lib self recs acc \<noteq> Inl (header_error s)"
  by (induction recs arbitrary: acc)
     (simp_all add: bind_result_Inl parse_record_not_header_error assert_valid_not_header_error)

lemma balance_cells_not_header_error: "balance_cells lib self row cs sb \<noteq> Inl (header_error s)"
  by (induction cs arbitrary: sb) (simp_all add: bind_result_Inl not_header_error)

lemma balance_rows_not_header_error: "balance_rows lib self rows sb \<noteq> Inl (header_error s)"
  by (induction rows arbitrary: sb) (simp_all add: bind_result_Inl balance_cells_not_header_error)

lemma recalculate_balance_not_header_error: "recalculate_balance lib stmt \<noteq> Inl (header_error s)"
  by (auto simp: recalculate_balance_def Let_def header_error_def)

lemma locate_found:
  assumes "find_header (fields_values self) (ws_rows (ws self)) = Some c"
  shows "locate self =
          (if field_mapping self c ''DATE'' = None then Inl (ValueError ''No date column found'')
           else if field_mapping self c ''AMOUNT'' = None then Inl (ValueError ''No amount column found'')
           else if field_mapping self c ''CONCEPT'' = None then Inl (ValueError ''No concept column'')
           else Inr (self\<lparr>fields_to_row := field_mapping self c, start_row := crow c + 1,
                            start_column := col_idx c - 1\<rparr>))"
  using assms by (simp add: locate_def Let_def)

lemma parse_found_not_header_error:
  assumes "find_header (fields_values self) (ws_rows (ws self)) = Some c"
  shows "parse lib self \<noteq> Inl (header_error self)"
proof -
  have "locate self \<noteq> Inl (header_error self)"
    unfolding locate_found [OF assms] by (simp add: header_error_def)
  then show ?thesis
    unfolding parse_def scan_balance_def
    by (simp add: bind_result_Inl Let_def balance_rows_not_header_error
        parse_lines_not_header_error recalculate_balance_not_header_error)
qed

text \<open>
  C6.  The header search returns the first header cell of the sheet, rows taken from the
  top and the cells of a row from the left, where a header cell holds a text that,
  lowered, equals the lowered header text of a field of the locale (so \<open>FECHA\<close> is a header
  cell for the Spanish locale).  On a sheet without a header cell at any position \<open>parse\<close>
  fails with the header error.  On a sheet with a header cell \<open>parse\<close> does not fail with
  the header error, and the first header cell fixes the header row and the start column:
  the fields are mapped from that cell's row, from its column on, and, unless a required
  field is missing, the data start in the row below it and the start column is its
  column.
\<close>

theorem C6_header_location:
  "find_header (fields_values self) (ws_rows (ws self)) =
     find (\<lambda>c. header_text self (cvalue c)) (concat (ws_rows (ws self)))
   \<and> ((\<forall>r c. \<not> header_text self (value_at (ws self) r c)) \<longrightarrow>
        parse lib self = Inl (header_error self))
   \<and> (find_header (fields_values self) (ws_rows (ws self)) = Some c \<longrightarrow>
        header_text self (value_at (ws self) (crow c) (col_idx c))
        \<and> parse lib self \<noteq> Inl (header_error self)
        \<and> locate self =
            (if field_mapping self c ''DATE'' = None then Inl (ValueError ''No date column found'')
             else if field_mapping self c ''AMOUNT'' = None
               then Inl (ValueError ''No amount column found'')
             else if field_mapping self c ''CONCEPT'' = None then Inl (ValueError ''No concept column'')
             else Inr (self\<lparr>fields_to_row := field_mapping self c, start_row := crow c + 1,
                              start_column := col_idx c - 1\<rparr>)))
   \<and> (fields_enum self = create_fields_enum ''es'' \<longrightarrow> header_text self (CStr ''FECHA''))"
proof (intro conjI impI)
  show "find_header (fields_values self) (ws_rows (ws self)) =
     find (\<lambda>c. header_text self (cvalue c)) (concat (ws_rows (ws self)))"
    by (simp add: find_header_find is_header_iff)
next
  assume none: "\<forall>r c. \<not> header_text self (value_at (ws self) r c)"
  have "find_header (fields_values self) (ws_rows (ws self)) = None"
  proof (cases "find_header (fields_values self) (ws_rows (ws self))")
    case (Some c)
    then show ?thesis
      using find_header_cell [OF Some] none by (simp add: is_header_iff)
  qed simp
  then show "parse lib self = Inl (header_error self)"
    by (rule parse_no_header)
next
  assume a: "find_header (fields_values self) (ws_rows (ws self)) = Some c"
  then show "header_text self (value_at (ws self) (crow c) (col_idx c))"
    using find_header_cell [of "fields_values self" "ws self" c] by (simp add: is_header_iff)
  from a show "parse lib self \<noteq> Inl (header_error self)"
    by (rule parse_found_not_header_error)
  from a show "locate self =
            (if field_mapping self c ''DATE'' = None then Inl (ValueError ''No date column found'')
             else if field_mapping self c ''AMOUNT'' = None
               then Inl (ValueError ''No amount column found'')
             else if field_mapping self c ''CONCEPT'' = None then Inl (ValueError ''No concept column'')
             else Inr (self\<lparr>fields_to_row := field_mapping self c, start_row := crow c + 1,
                              start_column := col_idx c - 1\<rparr>))"
    by (rule locate_found)
next
  assume "fields_enum self = create_fields_enum ''es''"
  then show "header_text self (CStr ''FECHA'')"
    by (simp add: header_text_def create_fields_enum_def FIELD_MAPPINGS_def) code_simp
qed

theorem C6_header_location_witness:
  "parse sample_library (sample_parser no_header_sheet) =
     Inl (header_error (sample_parser no_header_sheet))
   \<and> map_option (\<lambda>c. (cvalue c, crow c, col_idx c))
       (find_header (fields_values (sample_parser capitals_sheet)) (ws_rows capitals_sheet)) =
     Some (CStr ''FECHA'', 2, 2)
   \<and> header_text (sample_parser capitals_sheet) (CStr ''FECHA'')
   \<and> map_option (\<lambda>c. (cvalue c, crow c, col_idx c))
       (find_header (fields_values (sample_parser offset_sheet)) (ws_rows offset_sheet)) =
     Some (CStr ''Fecha'', 2, 2)
   \<and> map_sum id (\<lambda>p. (start_row p, start_column p,
                       map (fields_to_row p) [''DATE'', ''CONCEPT'', ''AMOUNT'']))
       (locate (sample_parser offset_sheet)) = Inr (3, 1, [Some 0, Some 1, Some 2])
   \<and> parse sample_library (sample_parser offset_sheet) \<noteq> Inl (header_error (sample_parser offset_sheet))
   \<and> map_sum id (\<lambda>st. length (lines st)) (parse sample_library (sample_parser offset_sheet)) = Inr 1"
proof -
  let ?p = "sample_parser no_header_sheet"
  have "\<not> header_text ?p CNone" "\<not> header_text ?p (CStr ''Saldo'')"
    "\<not> header_text ?p (CInt 3)" "\<not> header_text ?p (CStr ''Total'')"
    by code_simp+
  then have "\<not> header_text ?p (value_at (ws ?p) r c)" for r c
    using no_header_sheet_values [of r c] by (auto simp: sample_parser_def)
  then have 1: "parse sample_library ?p = Inl (header_error ?p)"
    using C6_header_location [of ?p sample_library] by blast
  have 2: "map_option (\<lambda>c. (cvalue c, crow c, col_idx c))
       (find_header (fields_values (sample_parser capitals_sheet)) (ws_rows capitals_sheet)) =
     Some (CStr ''FECHA'', 2, 2)"
    by code_simp
  have 3: "header_text (sample_parser capitals_sheet) (CStr ''FECHA'')"
    by code_simp
  let ?q = "sample_parser offset_sheet" and ?c = "\<lparr>cvalue = CStr ''Fecha'', crow = 2, col_idx = 2\<rparr>"
  have w: "ws ?q = offset_sheet"
    by (simp add: sample_parser_def)
  have h: "find_header (fields_values ?q) (ws_rows (ws ?q)) = Some ?c"
    by code_simp
  have m: "field_mapping ?q ?c ''DATE'' = Some 0" "field_mapping ?q ?c ''CONCEPT'' = Some 1"
    "field_mapping ?q ?c ''AMOUNT'' = Some 2"
    by code_simp+
  from C6_header_location [of ?q sample_library ?c] h
  have l: "locate ?q =
            (if field_mapping ?q ?c ''DATE'' = None then Inl (ValueError ''No date column found'')
             else if field_mapping ?q ?c ''AMOUNT'' = None
               then Inl (ValueError ''No amount column found'')
             else if field_mapping ?q ?c ''CONCEPT'' = None then Inl (ValueError ''No concept column'')
             else Inr (?q\<lparr>fields_to_row := field_mapping ?q ?c, start_row := crow ?c + 1,
                            start_column := col_idx ?c - 1\<rparr>))"
    and n: "parse sample_library ?q \<noteq> Inl (header_error ?q)"
    by blast+
  have 4: "map_option (\<lambda>c. (cvalue c, crow c, col_idx c))
       (find_header (fields_values ?q) (ws_rows offset_sheet)) = Some (CStr ''Fecha'', 2, 2)"
    using h by (simp add: w)
  have 5: "map_sum id (\<lambda>p. (start_row p, start_column p,
                       map (fields_to_row p) [''DATE'', ''CONCEPT'', ''AMOUNT'']))
       (locate ?q) = Inr (3, 1, [Some 0, Some 1, Some 2])"
    unfolding l by (simp add: m)
  have 6: "map_sum id (\<lambda>st. length (lines st)) (parse sample_library ?q) = Inr 1"
    by code_simp
  from 1 2 3 4 5 n 6 show ?thesis by simp
qed

end
